theory Spec2Isabelle
  imports Complex_Main "HOL-Library.Multiset" "HOL-Library.Option_ord"
begin

section \<open>Data model\<close>

text \<open>
  The rows of the object-relational mapper, reduced to the columns that
  \<^verbatim>\<open>judge/utils/problems.py\<close> and \<open>SubmissionAdmin\<close> in
  \<^verbatim>\<open>judge/admin.py\<close> read or write. Float columns are real numbers, integer
  columns and primary keys are integers, a nullable column is an option.
  \<open>Problem.points\<close> and \<open>Submission.points\<close> are two columns with one name;
  record fields share one name space, so each field carries its table as a prefix.
\<close>

record problem =
  problem_id :: int
  problem_is_public :: bool
  problem_is_organization_private :: bool
  problem_points :: real
  problem_partial :: bool
  problem_ac_rate :: real
  problem_authors :: "int list"

record submission =
  submission_id :: int
  submission_user :: int
  submission_problem :: problem
  submission_date :: int
  submission_result :: "string option"
  submission_points :: real
  submission_case_points :: real
  submission_case_total :: real

text \<open>
  A contest submission joins a submission to a contest problem, which has its
  own \<open>points\<close> column and refers to the catalogue problem.
\<close>

record contest_problem =
  contest_problem_points :: real
  contest_problem_problem :: problem

record contest_submission =
  contest_submission_participation :: int
  contest_submission_submission :: submission
  contest_submission_problem :: contest_problem
  contest_submission_points :: real

subsection \<open>Result taxonomy\<close>

record result_type =
  rt_code :: string
  rt_name :: string
  rt_results :: "string list"

definition RESULT_TYPES :: "result_type list" where
  "RESULT_TYPES =
    [\<lparr>rt_code = ''AC'', rt_name = ''Accepted'', rt_results = [''AC'']\<rparr>,
     \<lparr>rt_code = ''WA'', rt_name = ''Wrong'', rt_results = [''WA'']\<rparr>,
     \<lparr>rt_code = ''CE'', rt_name = ''Compile Error'', rt_results = [''CE'']\<rparr>,
     \<lparr>rt_code = ''TLE'', rt_name = ''Timeout'', rt_results = [''TLE'']\<rparr>,
     \<lparr>rt_code = ''ERR'', rt_name = ''Error'',
      rt_results = [''MLE'', ''OLE'', ''IR'', ''RTE'', ''AB'', ''IE'']\<rparr>]"

text \<open>
  \<^verbatim>\<open>{status: rtype.code for rtype in RESULT_TYPES for status in rtype.results}\<close>:
  a later pair of a dict comprehension overwrites an earlier one, hence the \<open>rev\<close>.
\<close>

definition RESULT_TO_TYPE :: "string \<rightharpoonup> string" where
  "RESULT_TO_TYPE =
    map_of (rev (concat (map (\<lambda>rtype. map (\<lambda>status. (status, rt_code rtype)) (rt_results rtype))
                             RESULT_TYPES)))"

record category =
  cat_code :: string
  cat_name :: string
  cat_count :: int

record result_data =
  categories :: "category list"
  total_count :: int

subsection \<open>The world: store, cache, event channel, admin messages\<close>

text \<open>
  The cache backend is one key-value store. Every key family
  (\<^verbatim>\<open>'user_complete:%d'\<close>, \<^verbatim>\<open>'user_attempted:%s'\<close>,
  \<^verbatim>\<open>'contest_complete:%d'\<close>, \<^verbatim>\<open>'hot_problems:%d:%d'\<close> and the single key
  \<^verbatim>\<open>'global_submission_result_data'\<close>) is written by one function with one type
  of value, so the world holds one typed map per family, indexed by the numbers that
  are formatted into the key. An entry is the value with the timeout it was set with.
\<close>

record attempt =
  achieved_points :: real
  max_points :: real

record event =
  event_channel :: string
  event_type :: string
  event_result_type :: string
  event_delta :: int

datatype message =
    Error_message string
  | Scheduled_message int
  | Rescored_message nat

record world =
  Submission_objects :: "submission list"
  ContestSubmission_objects :: "contest_submission list"
  Problem_objects :: "problem list"
  Profile_objects :: "int list"
  user_complete :: "int \<rightharpoonup> int set \<times> nat"
  contest_complete :: "int \<rightharpoonup> int set \<times> nat"
  user_attempted :: "int \<rightharpoonup> (int \<rightharpoonup> attempt) \<times> nat"
  global_submission_result_data :: "(result_data \<times> nat) option"
  hot_problems_cache :: "int \<times> nat \<rightharpoonup> problem list \<times> nat"
  posted :: "event list"
  messages :: "message list"
  judged :: "int list"
  calculated_points :: "int list"

section \<open>Result distribution\<close>

datatype error = ValueError | PermissionDenied

text \<open>
  \<^verbatim>\<open>submissions.values('result').annotate(count=Count('result'))\<close>: one group for each
  result in the queryset; \<open>Count\<close> counts the rows of the group whose result is not
  NULL, so the group of pending submissions counts 0.
\<close>

definition raw_counts :: "submission list \<Rightarrow> (string option \<times> int) list" where
  "raw_counts submissions =
    map (\<lambda>r. (r, case r of None \<Rightarrow> 0
                   | Some _ \<Rightarrow> int (length (filter (\<lambda>s. submission_result s = r) submissions))))
        (remdups (map submission_result submissions))"

text \<open>\<^verbatim>\<open>results[status]\<close> on \<^verbatim>\<open>defaultdict(int, raw)\<close>.\<close>

definition results_at :: "(string option \<times> int) list \<Rightarrow> string \<Rightarrow> int" where
  "results_at raw status = (case map_of raw (Some status) of None \<Rightarrow> 0 | Some c \<Rightarrow> c)"

definition breakdown :: "submission list \<Rightarrow> result_data" where
  "breakdown submissions =
    (let raw = raw_counts submissions in
     \<lparr>categories =
        map (\<lambda>rtype. \<lparr>cat_code = rt_code rtype, cat_name = rt_name rtype,
                       cat_count = sum_list (map (results_at raw) (rt_results rtype))\<rparr>)
            RESULT_TYPES,
      total_count = sum_list (map snd raw)\<rparr>)"

text \<open>
  \<open>get_result_data(*args, **kwargs)\<close>. \<open>args\<close> is the tuple of positional
  querysets, \<open>kwargs\<close> the keyword filters, each a named predicate on submission
  rows; \<open>Submission.objects.filter(**kwargs)\<close> keeps the rows that satisfy all.
\<close>

definition get_result_data ::
    "world \<Rightarrow> submission list list \<Rightarrow> (string \<times> (submission \<Rightarrow> bool)) list \<Rightarrow> error + result_data" where
  "get_result_data w args kwargs =
    (case args of
       queryset # _ \<Rightarrow> if kwargs \<noteq> [] then Inl ValueError else Inr (breakdown queryset)
     | [] \<Rightarrow> Inr (breakdown (filter (\<lambda>s. list_all (\<lambda>(name, holds). holds s) kwargs)
                                    (Submission_objects w))))"

text \<open>
  \<open>add_to_result_data(result, delta)\<close>. The loop over the categories changes the
  first one whose code matches and stops (\<open>break\<close>); \<open>bump\<close> returns the changed
  aggregate. \<open>interval\<close> is \<open>settings.GLOBAL_SUBMISSION_STAT_UPDATE_INTERVAL\<close>.
  A cached aggregate is a dict with two keys, hence true in \<open>if not result_data\<close>.
\<close>

fun bump_categories :: "string \<Rightarrow> int \<Rightarrow> category list \<Rightarrow> (category list \<times> bool)" where
  "bump_categories code delta [] = ([], False)"
| "bump_categories code delta (c # cs) =
    (if cat_code c = code then (c\<lparr>cat_count := cat_count c + delta\<rparr> # cs, True)
     else (let (cs', found) = bump_categories code delta cs in (c # cs', found)))"

definition bump :: "string \<Rightarrow> int \<Rightarrow> result_data \<Rightarrow> result_data" where
  "bump code delta result_data =
    (let (cs, found) = bump_categories code delta (categories result_data) in
     \<lparr>categories = cs, total_count = (if found then total_count result_data + delta else total_count result_data)\<rparr>)"

definition add_to_result_data :: "nat \<Rightarrow> string option \<Rightarrow> int \<Rightarrow> world \<Rightarrow> world" where
  "add_to_result_data interval result delta w =
    (case result of
       None \<Rightarrow> w
     | Some r \<Rightarrow>
        (case RESULT_TO_TYPE r of
           None \<Rightarrow> w
         | Some code \<Rightarrow>
            (case global_submission_result_data w of
               None \<Rightarrow> w
             | Some (result_data, _) \<Rightarrow>
                 w\<lparr>global_submission_result_data := Some (bump code delta result_data, interval),
                   posted := posted w @
                     [\<lparr>event_channel = ''submissions'', event_type = ''change-global-stats'',
                       event_result_type = code, event_delta = delta\<rparr>]\<rparr>)))"

section \<open>ID-set cache\<close>

text \<open>
  \<open>.values_list('problem_id', flat=True).distinct()\<close> is the list of the selected
  column without repetitions; \<open>set(...)\<close> makes the Python set of it. A cached value
  is returned as it is (\<open>if result is None\<close> is false for an empty set too).
\<close>

definition user_completed_query :: "world \<Rightarrow> int \<Rightarrow> int list" where
  "user_completed_query w profile =
    remdups (map (\<lambda>s. problem_id (submission_problem s))
      (filter (\<lambda>s. submission_user s = profile \<and> submission_result s = Some ''AC'' \<and>
                    submission_points s = problem_points (submission_problem s))
              (Submission_objects w)))"

definition user_completed_ids :: "int \<Rightarrow> world \<Rightarrow> int set \<times> world" where
  "user_completed_ids profile w =
    (case user_complete w profile of
       Some (result, _) \<Rightarrow> (result, w)
     | None \<Rightarrow>
        (let result = set (user_completed_query w profile) in
         (result, w\<lparr>user_complete := (user_complete w)(profile \<mapsto> (result, 86400))\<rparr>)))"

definition contest_completed_query :: "world \<Rightarrow> int \<Rightarrow> int list" where
  "contest_completed_query w participation =
    remdups (map (\<lambda>cs. problem_id (contest_problem_problem (contest_submission_problem cs)))
      (filter (\<lambda>cs. contest_submission_participation cs = participation \<and>
                     submission_result (contest_submission_submission cs) = Some ''AC'' \<and>
                     contest_submission_points cs =
                       contest_problem_points (contest_submission_problem cs))
              (ContestSubmission_objects w)))"

definition contest_completed_ids :: "int \<Rightarrow> world \<Rightarrow> int set \<times> world" where
  "contest_completed_ids participation w =
    (case contest_complete w participation of
       Some (result, _) \<Rightarrow> (result, w)
     | None \<Rightarrow>
        (let result = set (contest_completed_query w participation) in
         (result, w\<lparr>contest_complete := (contest_complete w)(participation \<mapsto> (result, 86400))\<rparr>)))"

section \<open>Hot problems\<close>

text \<open>
  The filter \<open>submission__date__gt\<close> joins each problem with its submissions after
  \<open>since = timezone.now() - duration\<close>; the annotations count over the rows of that
  join. Times and durations are whole seconds.
\<close>

definition window_submissions :: "world \<Rightarrow> int \<Rightarrow> problem \<Rightarrow> submission list" where
  "window_submissions w since p =
    filter (\<lambda>s. problem_id (submission_problem s) = problem_id p \<and> since < submission_date s)
           (Submission_objects w)"

definition hot_candidates :: "world \<Rightarrow> int \<Rightarrow> problem list" where
  "hot_candidates w since =
    filter (\<lambda>p. problem_is_public p \<and> \<not> problem_is_organization_private p \<and>
                window_submissions w since p \<noteq> [] \<and>
                3 < problem_points p \<and> problem_points p < 25)
           (Problem_objects w)"

definition unique_user_count :: "world \<Rightarrow> int \<Rightarrow> problem \<Rightarrow> nat" where
  "unique_user_count w since p = length (remdups (map submission_user (window_submissions w since p)))"

definition submission_volume :: "world \<Rightarrow> int \<Rightarrow> problem \<Rightarrow> nat" where
  "submission_volume w since p =
    length (filter (\<lambda>s. submission_result s \<in>
                          set (map Some [''AC'', ''WA'', ''IR'', ''RTE'', ''TLE'', ''OLE'']))
                   (window_submissions w since p))"

definition ac_volume :: "world \<Rightarrow> int \<Rightarrow> problem \<Rightarrow> nat" where
  "ac_volume w since p =
    length (filter (\<lambda>s. submission_result s = Some ''AC'') (window_submissions w since p))"

text \<open>
  The ordering expression is evaluated by the database. A value of it is a number or
  NULL (\<open>None\<close>); an operator with a NULL operand gives NULL, and so does a division
  by zero (MySQL, the engine of the project; an engine that raises instead has no
  value for the row at all). HOL's own \<open>x / 0 = 0\<close> is never used.
\<close>

type_synonym sqlval = "real option"

definition sql_lift :: "(real \<Rightarrow> real \<Rightarrow> real) \<Rightarrow> sqlval \<Rightarrow> sqlval \<Rightarrow> sqlval" where
  "sql_lift f a b = (case a of None \<Rightarrow> None | Some x \<Rightarrow> (case b of None \<Rightarrow> None | Some y \<Rightarrow> Some (f x y)))"

definition sql_add :: "sqlval \<Rightarrow> sqlval \<Rightarrow> sqlval" where
  "sql_add = sql_lift (+)"

definition sql_mul :: "sqlval \<Rightarrow> sqlval \<Rightarrow> sqlval" where
  "sql_mul = sql_lift (*)"

definition sql_pow :: "sqlval \<Rightarrow> sqlval \<Rightarrow> sqlval" where
  "sql_pow = sql_lift (powr)"

definition sql_div :: "sqlval \<Rightarrow> sqlval \<Rightarrow> sqlval" where
  "sql_div a b =
    (case a of None \<Rightarrow> None
     | Some x \<Rightarrow> (case b of None \<Rightarrow> None | Some y \<Rightarrow> if y = 0 then None else Some (x / y)))"

text \<open>
  \<^verbatim>\<open>0.5 * F('points') * (0.4 * F('ac_volume') / F('submission_volume') + 0.6 * F('ac_rate'))
  + 100 * e ** (F('unique_user_count') / mx)\<close>
\<close>

definition ordering_score :: "world \<Rightarrow> int \<Rightarrow> real \<Rightarrow> problem \<Rightarrow> sqlval" where
  "ordering_score w since mx p =
    sql_add
      (sql_mul (sql_mul (Some 0.5) (Some (problem_points p)))
               (sql_add (sql_div (sql_mul (Some 0.4) (Some (real (ac_volume w since p))))
                                 (Some (real (submission_volume w since p))))
                        (sql_mul (Some 0.6) (Some (problem_ac_rate p)))))
      (sql_mul (Some 100)
               (sql_pow (Some (exp 1)) (sql_div (Some (real (unique_user_count w since p))) (Some mx))))"

text \<open>
  \<open>order_by('-ordering')\<close>: descending by the key, NULL last; the query names no
  second key. \<open>order_by_desc\<close> keeps rows with equal keys in the order in which they
  reach the sort.
\<close>

fun insort_desc :: "('a \<Rightarrow> 'k::linorder) \<Rightarrow> 'a \<Rightarrow> 'a list \<Rightarrow> 'a list" where
  "insort_desc f x [] = [x]"
| "insort_desc f x (y # ys) = (if f y \<le> f x then x # y # ys else y # insort_desc f x ys)"

definition order_by_desc :: "('a \<Rightarrow> 'k::linorder) \<Rightarrow> 'a list \<Rightarrow> 'a list" where
  "order_by_desc f xs = foldr (insort_desc f) xs []"

text \<open>
  A table is a set of rows and has no order of its own; \<open>Problem_objects\<close> lists it in
  some order. The rows of the grouped query (\<open>GROUP BY\<close> the problem's \<open>id\<close>) reach the
  sort in the order of the primary key: that is how the database engine reads them, and
  its sort does not reorder rows with equal keys. The query does not ask for this order.
\<close>

definition primary_key_order :: "problem list \<Rightarrow> problem list" where
  "primary_key_order rows = sort_key problem_id rows"


definition popularity_floor :: "real \<Rightarrow> real" where
  "popularity_floor mx = max (mx / 3) 1"

definition hot_survivors :: "world \<Rightarrow> int \<Rightarrow> real \<Rightarrow> problem list" where
  "hot_survivors w since mx =
    filter (\<lambda>p. popularity_floor mx < real (unique_user_count w since p)) (hot_candidates w since)"

text \<open>
  \<open>qs0\<close> is the list of the counts, largest first; \<open>mx = float(qs0[0])\<close> exists
  unless \<open>qs0\<close> is empty.
\<close>

definition hot_mx :: "world \<Rightarrow> int \<Rightarrow> real option" where
  "hot_mx w since =
    (case rev (sort (map (unique_user_count w since) (hot_candidates w since))) of
       [] \<Rightarrow> None
     | k # _ \<Rightarrow> Some (real k))"

definition hot_problems :: "int \<Rightarrow> int \<Rightarrow> nat \<Rightarrow> world \<Rightarrow> problem list \<times> world" where
  "hot_problems now duration limit w =
    (case hot_problems_cache w (duration, limit) of
       Some (qs, _) \<Rightarrow> (qs, w)
     | None \<Rightarrow>
        (let since = now - duration in
         case hot_mx w since of
           None \<Rightarrow> ([], w)
         | Some mx \<Rightarrow>
            (let qs = take limit (order_by_desc (ordering_score w since mx)
                                    (primary_key_order (hot_survivors w since mx)))
             in (qs, w\<lparr>hot_problems_cache := (hot_problems_cache w)((duration, limit) \<mapsto> (qs, 900))\<rparr>))))"

section \<open>Rejudge and rescore\<close>

record request =
  request_perms :: "string list"
  request_profile :: int

definition has_perm :: "request \<Rightarrow> string \<Rightarrow> bool" where
  "has_perm request perm = (perm \<in> set (request_perms request))"

definition message_user :: "message \<Rightarrow> world \<Rightarrow> world" where
  "message_user m w = w\<lparr>messages := messages w @ [m]\<rparr>"

text \<open>
  The queryset of an admin action is the selection of primary keys; it is evaluated
  against the store each time it is used.
\<close>

definition selected :: "world \<Rightarrow> int list \<Rightarrow> submission list" where
  "selected w queryset = filter (\<lambda>s. submission_id s \<in> set queryset) (Submission_objects w)"

text \<open>
  \<open>model.judge()\<close> hands the submission to the judge bridge, which is outside this
  code: the world records the call, and \<open>bridge\<close> is the bridge's answer.
\<close>

fun judge_loop :: "(submission \<Rightarrow> bool) \<Rightarrow> submission list \<Rightarrow> int \<Rightarrow> world \<Rightarrow> int \<times> world" where
  "judge_loop bridge [] successful w = (successful, w)"
| "judge_loop bridge (model # rest) successful w =
    judge_loop bridge rest (successful + (if bridge model then 1 else 0))
               (w\<lparr>judged := judged w @ [submission_id model]\<rparr>)"

definition judge :: "(submission \<Rightarrow> bool) \<Rightarrow> request \<Rightarrow> int list \<Rightarrow> world \<Rightarrow> world" where
  "judge bridge request queryset w =
    (if \<not> has_perm request ''judge.rejudge_submission'' \<or> \<not> has_perm request ''judge.edit_own_problem''
     then message_user (Error_message ''You do not have the permission to rejudge submissions.'') w
     else
       (let qs = sort_key submission_id (selected w queryset) in
        if 10 < length qs \<and> \<not> has_perm request ''judge.rejudge_submission_lot''
        then message_user
               (Error_message ''You do not have the permission to rejudge THAT many submissions.'') w
        else
          (let qs = (if \<not> has_perm request ''judge.edit_all_problem''
                     then filter (\<lambda>s. request_profile request \<in> set (problem_authors (submission_problem s))) qs
                     else qs);
               (successful, w') = judge_loop bridge qs 0 w
           in message_user (Scheduled_message successful) w')))"

subsection \<open>Floating-point arithmetic of the interpreter\<close>

text \<open>
  \<open>case_points\<close>, \<open>case_total\<close> and \<open>points\<close> are float columns; the interpreter
  computes on IEEE 754 doubles. A double is the real number it stands for, and an
  operation is the exact operation followed by \<open>double_of\<close>, the rounding to the nearest
  number with a significand of 53 bits, a tie to the even significand. Overflow,
  subnormal numbers, infinities and NaN are not modelled.
\<close>

definition round_half_even :: "real \<Rightarrow> int" where
  "round_half_even x =
    (let f = \<lfloor>x\<rfloor>; d = x - of_int f
     in if d < 1 / 2 then f else if 1 / 2 < d then f + 1 else if even f then f else f + 1)"

definition double_of :: "real \<Rightarrow> real" where
  "double_of x =
    (if x = 0 then 0
     else (let e = \<lfloor>log 2 \<bar>x\<bar>\<rfloor>; ulp = 2 powr (of_int e - 52)
           in of_int (round_half_even (x / ulp)) * ulp))"

definition float_div :: "real \<Rightarrow> real \<Rightarrow> real" where
  "float_div x y = double_of (x / y)"

definition float_mul :: "real \<Rightarrow> real \<Rightarrow> real" where
  "float_mul x y = double_of (x * y)"

text \<open>
  \<open>round(x, 1)\<close> rounds the exact value of the double \<open>x\<close> to one decimal and returns
  the double nearest to that decimal. The source runs on either major version of the
  interpreter, and they differ on an exact half: Python 2 rounds it away from zero,
  Python 3 to the even digit.
\<close>

datatype interpreter = Python2 | Python3

definition decimal_round1 :: "interpreter \<Rightarrow> real \<Rightarrow> real" where
  "decimal_round1 py x =
    sgn x * of_int (case py of Python2 \<Rightarrow> \<lfloor>\<bar>x\<bar> * 10 + 1 / 2\<rfloor>
                             | Python3 \<Rightarrow> round_half_even (\<bar>x\<bar> * 10)) / 10"

definition py_round1 :: "interpreter \<Rightarrow> real \<Rightarrow> real" where
  "py_round1 py x = double_of (decimal_round1 py x)"

definition rescored_points :: "interpreter \<Rightarrow> submission \<Rightarrow> real" where
  "rescored_points py s =
    (let points = py_round1 py (if submission_case_total s \<noteq> 0
                                then float_mul (float_div (submission_case_points s)
                                                          (submission_case_total s))
                                               (problem_points (submission_problem s))
                                else 0)
     in if \<not> problem_partial (submission_problem s) \<and> points < problem_points (submission_problem s)
        then 0 else points)"

text \<open>\<open>submission.save()\<close>: the row with the primary key of the object gets its points.\<close>

definition save :: "submission \<Rightarrow> world \<Rightarrow> world" where
  "save s w =
    w\<lparr>Submission_objects :=
        map (\<lambda>row. if submission_id row = submission_id s
                   then row\<lparr>submission_points := submission_points s\<rparr> else row)
            (Submission_objects w)\<rparr>"

fun rescore_loop :: "interpreter \<Rightarrow> submission list \<Rightarrow> world \<Rightarrow> world" where
  "rescore_loop py [] w = w"
| "rescore_loop py (s # rest) w =
    rescore_loop py rest (save (s\<lparr>submission_points := rescored_points py s\<rparr>) w)"

text \<open>
  The second loop: \<open>profile.calculate_points()\<close> belongs to the profile model, the
  world records the call; \<open>cache.delete('user_complete:%d' % profile.id)\<close>.
\<close>

fun profile_loop :: "int list \<Rightarrow> world \<Rightarrow> world" where
  "profile_loop [] w = w"
| "profile_loop (profile # rest) w =
    profile_loop rest
      (w\<lparr>calculated_points := calculated_points w @ [profile],
         user_complete := (user_complete w)(profile := None)\<rparr>)"

definition touched_profiles :: "world \<Rightarrow> int list \<Rightarrow> int list" where
  "touched_profiles w queryset =
    filter (\<lambda>profile. profile \<in> set (remdups (map submission_user (selected w queryset))))
           (Profile_objects w)"

definition recalculate_score :: "interpreter \<Rightarrow> request \<Rightarrow> int list \<Rightarrow> world \<Rightarrow> world" where
  "recalculate_score py request queryset w =
    (if \<not> has_perm request ''judge.rejudge_submission''
     then message_user (Error_message ''You do not have the permission to rejudge submissions.'') w
     else
       (let submissions = selected w queryset;
            w1 = rescore_loop py submissions w;
            w2 = profile_loop (touched_profiles w1 queryset) w1
        in message_user (Rescored_message (length submissions)) w2))"

subsection \<open>The admin site's way to an action\<close>

text \<open>
  \<open>SubmissionAdmin.get_queryset\<close> and \<open>SubmissionAdmin.has_change_permission\<close>;
  \<open>obj\<close> is \<open>None\<close> or a submission.
\<close>

definition get_queryset :: "request \<Rightarrow> world \<Rightarrow> submission list" where
  "get_queryset request w =
    (if has_perm request ''judge.edit_all_problem'' then Submission_objects w
     else filter (\<lambda>s. request_profile request \<in> set (problem_authors (submission_problem s)))
                 (Submission_objects w))"

definition has_change_permission :: "request \<Rightarrow> submission option \<Rightarrow> bool" where
  "has_change_permission request obj =
    (if \<not> has_perm request ''judge.edit_own_problem'' then False
     else if has_perm request ''judge.edit_all_problem'' \<or> obj = None then True
     else (case obj of
             Some s \<Rightarrow> request_profile request \<in> set (problem_authors (submission_problem s))
           | None \<Rightarrow> True))"

text \<open>
  \<open>actions = ('judge', 'recalculate_score')\<close>: both operations are actions of the
  change list of \<open>SubmissionAdmin\<close>, and nothing else in the source calls them. The
  change list view of the framework's \<open>ModelAdmin\<close> raises \<open>PermissionDenied\<close> unless
  \<open>has_change_permission(request)\<close> holds, and only then calls the chosen action with
  the rows of \<open>get_queryset(request)\<close> whose primary key is selected.
\<close>

datatype action = Judge | Recalculate_score

definition changelist_action ::
    "interpreter \<Rightarrow> (submission \<Rightarrow> bool) \<Rightarrow> request \<Rightarrow> action \<Rightarrow> int list \<Rightarrow> world \<Rightarrow> error + world" where
  "changelist_action py bridge request action selected_pks w =
    (if \<not> has_change_permission request None then Inl PermissionDenied
     else
       (let queryset = map submission_id
              (filter (\<lambda>s. submission_id s \<in> set selected_pks) (get_queryset request w))
        in Inr (case action of
                  Judge \<Rightarrow> judge bridge request queryset w
                | Recalculate_score \<Rightarrow> recalculate_score py request queryset w)))"

section \<open>Shape of a cached breakdown\<close>

text \<open>
  The aggregate that \<open>get_result_data\<close> builds has one category for each entry of
  \<open>RESULT_TYPES\<close>, in that order.
\<close>

definition taxonomy_shaped :: "result_data \<Rightarrow> bool" where
  "taxonomy_shaped rd = (map cat_code (categories rd) = map rt_code RESULT_TYPES)"

section \<open>Example data\<close>

definition empty_world :: world where
  "empty_world =
    \<lparr>Submission_objects = [], ContestSubmission_objects = [], Problem_objects = [],
     Profile_objects = [], user_complete = Map.empty, contest_complete = Map.empty,
     user_attempted = Map.empty, global_submission_result_data = None,
     hot_problems_cache = Map.empty, posted = [], messages = [], judged = [],
     calculated_points = []\<rparr>"

definition example_result_data :: result_data where
  "example_result_data =
    \<lparr>categories =
       [\<lparr>cat_code = ''AC'', cat_name = ''Accepted'', cat_count = 10\<rparr>,
        \<lparr>cat_code = ''WA'', cat_name = ''Wrong'', cat_count = 5\<rparr>,
        \<lparr>cat_code = ''CE'', cat_name = ''Compile Error'', cat_count = 0\<rparr>,
        \<lparr>cat_code = ''TLE'', cat_name = ''Timeout'', cat_count = 0\<rparr>,
        \<lparr>cat_code = ''ERR'', cat_name = ''Error'', cat_count = 0\<rparr>],
     total_count = 15\<rparr>"

definition stats_world :: world where
  "stats_world = empty_world\<lparr>global_submission_result_data := Some (example_result_data, 60)\<rparr>"

text \<open>Two problems in the difficulty band that differ in their id only.\<close>

definition problem_1 :: problem where
  "problem_1 =
    \<lparr>problem_id = 1, problem_is_public = True, problem_is_organization_private = False,
     problem_points = 10, problem_partial = False, problem_ac_rate = 1 / 2,
     problem_authors = [7]\<rparr>"

definition problem_2 :: problem where
  "problem_2 = problem_1\<lparr>problem_id := 2\<rparr>"

definition mk_submission :: "int \<Rightarrow> int \<Rightarrow> problem \<Rightarrow> string option \<Rightarrow> real \<Rightarrow> submission" where
  "mk_submission sid user p result pts =
    \<lparr>submission_id = sid, submission_user = user, submission_problem = p,
     submission_date = 100, submission_result = result, submission_points = pts,
     submission_case_points = 80, submission_case_total = 100\<rparr>"

text \<open>
  Users 1 and 2 each submit to both problems inside the window; the table lists
  problem 2 before problem 1.
\<close>

definition tie_world :: world where
  "tie_world = empty_world
    \<lparr>Problem_objects := [problem_2, problem_1],
     Profile_objects := [1, 2],
     Submission_objects :=
       [mk_submission 1 1 problem_1 (Some ''AC'') 10, mk_submission 2 2 problem_1 (Some ''WA'') 0,
        mk_submission 3 1 problem_2 (Some ''AC'') 10, mk_submission 4 2 problem_2 (Some ''WA'') 0]\<rparr>"

text \<open>Users 1 and 2 submit to problem 1; neither submission compiles.\<close>

definition compile_error_world :: world where
  "compile_error_world = empty_world
    \<lparr>Problem_objects := [problem_1],
     Profile_objects := [1, 2],
     Submission_objects :=
       [mk_submission 1 1 problem_1 (Some ''CE'') 0, mk_submission 2 2 problem_1 (Some ''CE'') 0]\<rparr>"

text \<open>Sparse traffic: one user, one submission to problem 1.\<close>

definition sparse_world :: world where
  "sparse_world = empty_world
    \<lparr>Problem_objects := [problem_1],
     Profile_objects := [1],
     Submission_objects := [mk_submission 1 1 problem_1 (Some ''AC'') 10]\<rparr>"

text \<open>
  User 1 has three submissions to a problem worth 5 points, with 3, 5 and 5 points;
  one of the two with 5 points is accepted. User 2 has 5 points without an accepted
  result.
\<close>

definition problem_5 :: problem where
  "problem_5 = problem_1\<lparr>problem_id := 5, problem_points := 5\<rparr>"

definition history_world :: world where
  "history_world = empty_world
    \<lparr>Problem_objects := [problem_5],
     Profile_objects := [1, 2],
     Submission_objects :=
       [mk_submission 1 1 problem_5 (Some ''WA'') 3, mk_submission 2 1 problem_5 (Some ''AC'') 5,
        mk_submission 3 1 problem_5 (Some ''AC'') 5, mk_submission 4 2 problem_5 (Some ''WA'') 5],
     ContestSubmission_objects :=
       [\<lparr>contest_submission_participation = 9,
         contest_submission_submission = mk_submission 2 1 problem_5 (Some ''AC'') 5,
         contest_submission_problem = \<lparr>contest_problem_points = 100, contest_problem_problem = problem_5\<rparr>,
         contest_submission_points = 100\<rparr>,
        \<lparr>contest_submission_participation = 9,
         contest_submission_submission = mk_submission 3 1 problem_5 (Some ''AC'') 5,
         contest_submission_problem = \<lparr>contest_problem_points = 100, contest_problem_problem = problem_5\<rparr>,
         contest_submission_points = 100\<rparr>]\<rparr>"

text \<open>
  A problem worth 100 points without partial credit and the same problem with partial
  credit, each with one submission that passes 80 of 100 case points. User 1 has a
  cached completion set and a cached attempt set.
\<close>

definition problem_100 :: problem where
  "problem_100 = problem_1\<lparr>problem_id := 100, problem_points := 100\<rparr>"

definition problem_101 :: problem where
  "problem_101 = problem_1\<lparr>problem_id := 101, problem_points := 100, problem_partial := True\<rparr>"

definition rescore_world :: world where
  "rescore_world = empty_world
    \<lparr>Problem_objects := [problem_100, problem_101],
     Profile_objects := [1, 2],
     Submission_objects :=
       [mk_submission 1 1 problem_100 (Some ''WA'') 50, mk_submission 2 1 problem_101 (Some ''WA'') 50],
     user_complete := [1 \<mapsto> ({}, 86400)],
     user_attempted :=
       [1 \<mapsto> ([100 \<mapsto> \<lparr>achieved_points = 50, max_points = 100\<rparr>,
                  101 \<mapsto> \<lparr>achieved_points = 50, max_points = 100\<rparr>], 86400)]\<rparr>"

text \<open>
  Case points that do not fall on a decimal: 3 of 20 and 7 of 20 on a problem worth one
  point, 1 of 4 (an exact half of a tenth), and a submission without cases.
\<close>

definition problem_one :: problem where
  "problem_one = problem_1\<lparr>problem_id := 11, problem_points := 1, problem_partial := True\<rparr>"

definition case_submission :: "int \<Rightarrow> real \<Rightarrow> real \<Rightarrow> submission" where
  "case_submission sid cp ct =
    (mk_submission sid 1 problem_one (Some ''WA'') 0)
      \<lparr>submission_case_points := cp, submission_case_total := ct\<rparr>"

definition rounding_world :: world where
  "rounding_world = empty_world
    \<lparr>Problem_objects := [problem_one],
     Profile_objects := [1],
     Submission_objects :=
       [case_submission 1 3 20, case_submission 2 7 20, case_submission 3 1 4,
        case_submission 4 0 0]\<rparr>"

text \<open>Eleven submissions of user 1 to a problem of author 7.\<close>

definition bulk_world :: world where
  "bulk_world = empty_world
    \<lparr>Problem_objects := [problem_100],
     Profile_objects := [1],
     Submission_objects :=
       map (\<lambda>sid. mk_submission sid 1 problem_100 (Some ''WA'') 50) [1, 2, 3, 4, 5, 6, 7, 8, 9, 10, 11]\<rparr>"

definition rejudger :: request where
  "rejudger = \<lparr>request_perms = [''judge.rejudge_submission''], request_profile = 7\<rparr>"

definition editor :: request where
  "editor =
    \<lparr>request_perms = [''judge.rejudge_submission'', ''judge.edit_own_problem''],
     request_profile = 7\<rparr>"

definition author :: request where
  "author = \<lparr>request_perms = [''judge.edit_own_problem''], request_profile = 7\<rparr>"

section \<open>Properties of the result distribution\<close>

lemma RESULT_TO_TYPE_simps:
  "RESULT_TO_TYPE r =
    (if r = ''AC'' then Some ''AC'' else if r = ''WA'' then Some ''WA''
     else if r = ''CE'' then Some ''CE'' else if r = ''TLE'' then Some ''TLE''
     else if r \<in> {''MLE'', ''OLE'', ''IR'', ''RTE'', ''AB'', ''IE''} then Some ''ERR'' else None)"
  by (simp add: RESULT_TO_TYPE_def RESULT_TYPES_def)

lemma bump_categories_fst:
  "distinct (map cat_code cs) \<Longrightarrow>
   fst (bump_categories code delta cs) =
     map (\<lambda>c. if cat_code c = code then c\<lparr>cat_count := cat_count c + delta\<rparr> else c) cs"
proof (induction cs)
  case Nil
  show ?case by simp
next
  case (Cons c cs)
  show ?case
  proof (cases "cat_code c = code")
    case True
    with Cons.prems have "code \<notin> cat_code ` set cs" by simp
    then have "\<forall>d \<in> set cs. cat_code d \<noteq> code" by blast
    then have "map (\<lambda>c. if cat_code c = code then c\<lparr>cat_count := cat_count c + delta\<rparr> else c) cs = cs"
      by (simp add: map_idI)
    with True show ?thesis by simp
  next
    case False
    with Cons show ?thesis by (simp add: split_beta)
  qed
qed

lemma bump_categories_snd:
  "snd (bump_categories code delta cs) = (code \<in> set (map cat_code cs))"
  by (induction cs) (auto simp: split_beta)

lemma taxonomy_shaped_breakdown: "taxonomy_shaped (breakdown submissions)"
  by (simp add: taxonomy_shaped_def breakdown_def Let_def o_def)

lemma taxonomy_codes:
  "taxonomy_shaped rd \<Longrightarrow> RESULT_TO_TYPE r = Some code \<Longrightarrow>
   distinct (map cat_code (categories rd)) \<and> code \<in> set (map cat_code (categories rd))"
  by (auto simp: taxonomy_shaped_def RESULT_TYPES_def RESULT_TO_TYPE_simps split: if_splits)

lemma bump_categories_nonneg:
  assumes "\<forall>c \<in> set cs. 0 \<le> cat_count c"
    and "\<forall>c \<in> set cs. cat_code c = code \<longrightarrow> 0 \<le> cat_count c + delta"
  shows "\<forall>c \<in> set (fst (bump_categories code delta cs)). 0 \<le> cat_count c"
  using assms by (induction cs) (auto simp: split_beta)

lemma history_breakdown:
  "breakdown (Submission_objects history_world) =
    \<lparr>categories =
       [\<lparr>cat_code = ''AC'', cat_name = ''Accepted'', cat_count = 2\<rparr>,
        \<lparr>cat_code = ''WA'', cat_name = ''Wrong'', cat_count = 2\<rparr>,
        \<lparr>cat_code = ''CE'', cat_name = ''Compile Error'', cat_count = 0\<rparr>,
        \<lparr>cat_code = ''TLE'', cat_name = ''Timeout'', cat_count = 0\<rparr>,
        \<lparr>cat_code = ''ERR'', cat_name = ''Error'', cat_count = 0\<rparr>],
     total_count = 4\<rparr>"
  by (simp add: breakdown_def raw_counts_def results_at_def RESULT_TYPES_def Let_def
      history_world_def empty_world_def mk_submission_def)

lemma add_to_result_data_absent:
  "global_submission_result_data w = None \<Longrightarrow> add_to_result_data interval result delta w = w"
  by (simp add: add_to_result_data_def split: option.splits)

text \<open>
  C10. \<open>get_result_data\<close> called with a positional queryset and at least one keyword
  filter raises \<open>ValueError\<close> and returns no breakdown; a call with only a queryset,
  only keyword filters, or neither returns a breakdown.
\<close>

theorem get_result_data_both_raises:
  "(args \<noteq> [] \<and> kwargs \<noteq> [] \<longrightarrow> get_result_data w args kwargs = Inl ValueError) \<and>
   (args \<noteq> [] \<and> kwargs = [] \<longrightarrow> get_result_data w args kwargs = Inr (breakdown (hd args))) \<and>
   (args = [] \<longrightarrow>
      get_result_data w args kwargs =
        Inr (breakdown (filter (\<lambda>s. list_all (\<lambda>(name, holds). holds s) kwargs)
                               (Submission_objects w))))"
  by (cases args) (auto simp: get_result_data_def)

theorem get_result_data_both_raises_witness:
  "get_result_data history_world [Submission_objects history_world]
     [(''user'', \<lambda>s. submission_user s = 1)] = Inl ValueError \<and>
   get_result_data history_world [Submission_objects history_world] [] =
     Inr (breakdown (Submission_objects history_world)) \<and>
   get_result_data history_world [] [(''user'', \<lambda>s. submission_user s = 1)] =
     Inr (breakdown (filter (\<lambda>s. submission_user s = 1) (Submission_objects history_world))) \<and>
   get_result_data history_world [] [] =
     Inr \<lparr>categories =
           [\<lparr>cat_code = ''AC'', cat_name = ''Accepted'', cat_count = 2\<rparr>,
            \<lparr>cat_code = ''WA'', cat_name = ''Wrong'', cat_count = 2\<rparr>,
            \<lparr>cat_code = ''CE'', cat_name = ''Compile Error'', cat_count = 0\<rparr>,
            \<lparr>cat_code = ''TLE'', cat_name = ''Timeout'', cat_count = 0\<rparr>,
            \<lparr>cat_code = ''ERR'', cat_name = ''Error'', cat_count = 0\<rparr>],
          total_count = 4\<rparr>"
  using get_result_data_both_raises [of "[Submission_objects history_world]"
      "[(''user'', \<lambda>s. submission_user s = 1)]" history_world]
    get_result_data_both_raises [of "[Submission_objects history_world]" "[]" history_world]
    get_result_data_both_raises [of "[]" "[(''user'', \<lambda>s. submission_user s = 1)]" history_world]
    get_result_data_both_raises [of "[]" "[]" history_world]
  by (simp add: history_breakdown)

text \<open>
  C7. For a result code with a taxonomy mapping and a cached breakdown of the shape that
  \<open>get_result_data\<close> builds, \<open>add_to_result_data\<close> adds \<open>delta\<close> to the count of
  the category of that code and of no other, adds it to the total, stores the aggregate
  with the timeout \<open>interval\<close>, appends one event with the category code and the delta,
  and changes nothing else in the world. For a result without a taxonomy mapping (a code
  outside the taxonomy, or the pending result \<open>None\<close>) the world is unchanged.
\<close>

theorem add_to_result_data_effect:
  "(\<forall>r code rd ttl.
      result = Some r \<and> RESULT_TO_TYPE r = Some code \<and>
      global_submission_result_data w = Some (rd, ttl) \<and> taxonomy_shaped rd \<longrightarrow>
      add_to_result_data interval result delta w =
        w\<lparr>global_submission_result_data :=
             Some (\<lparr>categories = map (\<lambda>c. if cat_code c = code
                                           then c\<lparr>cat_count := cat_count c + delta\<rparr> else c)
                                     (categories rd),
                    total_count = total_count rd + delta\<rparr>, interval),
          posted := posted w @
            [\<lparr>event_channel = ''submissions'', event_type = ''change-global-stats'',
              event_result_type = code, event_delta = delta\<rparr>]\<rparr>) \<and>
   ((\<forall>r. result = Some r \<longrightarrow> RESULT_TO_TYPE r = None) \<longrightarrow>
      add_to_result_data interval result delta w = w)"
proof (intro conjI allI impI)
  fix r code rd ttl
  assume h: "result = Some r \<and> RESULT_TO_TYPE r = Some code \<and>
      global_submission_result_data w = Some (rd, ttl) \<and> taxonomy_shaped rd"
  then have d: "distinct (map cat_code (categories rd))"
    and m: "code \<in> set (map cat_code (categories rd))"
    using taxonomy_codes by blast+
  have "bump code delta rd =
      \<lparr>categories = map (\<lambda>c. if cat_code c = code
                                then c\<lparr>cat_count := cat_count c + delta\<rparr> else c) (categories rd),
       total_count = total_count rd + delta\<rparr>"
    using bump_categories_fst [OF d, of code delta] bump_categories_snd [of code delta "categories rd"] m
    by (simp add: bump_def split_beta)
  with h show "add_to_result_data interval result delta w =
        w\<lparr>global_submission_result_data :=
             Some (\<lparr>categories = map (\<lambda>c. if cat_code c = code
                                           then c\<lparr>cat_count := cat_count c + delta\<rparr> else c)
                                     (categories rd),
                    total_count = total_count rd + delta\<rparr>, interval),
          posted := posted w @
            [\<lparr>event_channel = ''submissions'', event_type = ''change-global-stats'',
              event_result_type = code, event_delta = delta\<rparr>]\<rparr>"
    by (simp add: add_to_result_data_def)
next
  assume "\<forall>r. result = Some r \<longrightarrow> RESULT_TO_TYPE r = None"
  then show "add_to_result_data interval result delta w = w"
    by (cases result) (simp_all add: add_to_result_data_def)
qed

theorem add_to_result_data_effect_witness:
  "global_submission_result_data (add_to_result_data 30 (Some ''AC'') 1 stats_world) =
     Some (\<lparr>categories =
       [\<lparr>cat_code = ''AC'', cat_name = ''Accepted'', cat_count = 11\<rparr>,
        \<lparr>cat_code = ''WA'', cat_name = ''Wrong'', cat_count = 5\<rparr>,
        \<lparr>cat_code = ''CE'', cat_name = ''Compile Error'', cat_count = 0\<rparr>,
        \<lparr>cat_code = ''TLE'', cat_name = ''Timeout'', cat_count = 0\<rparr>,
        \<lparr>cat_code = ''ERR'', cat_name = ''Error'', cat_count = 0\<rparr>],
     total_count = 16\<rparr>, 30) \<and>
   posted (add_to_result_data 30 (Some ''AC'') 1 stats_world) =
     [\<lparr>event_channel = ''submissions'', event_type = ''change-global-stats'',
       event_result_type = ''AC'', event_delta = 1\<rparr>] \<and>
   add_to_result_data 30 None 1 stats_world = stats_world \<and>
   add_to_result_data 30 (Some ''SC'') 1 stats_world = stats_world"
proof -
  have c: "global_submission_result_data stats_world = Some (example_result_data, 60)"
    by (simp add: stats_world_def)
  have s: "taxonomy_shaped example_result_data"
    by (simp add: taxonomy_shaped_def example_result_data_def RESULT_TYPES_def)
  have m: "RESULT_TO_TYPE ''AC'' = Some ''AC''" "RESULT_TO_TYPE ''SC'' = None"
    by (simp_all add: RESULT_TO_TYPE_simps)
  show ?thesis
    using add_to_result_data_effect [where result = "Some ''AC''" and w = stats_world
          and interval = 30 and delta = 1]
      add_to_result_data_effect [where result = None and w = stats_world
          and interval = 30 and delta = 1]
      add_to_result_data_effect [where result = "Some ''SC''" and w = stats_world
          and interval = 30 and delta = 1] c s m
    by (simp add: stats_world_def empty_world_def example_result_data_def)
qed

text \<open>
  C2, as stated, fails: \<open>add_to_result_data\<close> has no clamp. With 5 wrong answers
  cached and a delta of \<open>-7\<close> the count becomes \<open>-2\<close>.
\<close>

theorem add_to_result_data_clamp_counterexample:
  "global_submission_result_data (add_to_result_data 30 (Some ''WA'') (- 7) stats_world) =
     Some (\<lparr>categories =
       [\<lparr>cat_code = ''AC'', cat_name = ''Accepted'', cat_count = 10\<rparr>,
        \<lparr>cat_code = ''WA'', cat_name = ''Wrong'', cat_count = - 2\<rparr>,
        \<lparr>cat_code = ''CE'', cat_name = ''Compile Error'', cat_count = 0\<rparr>,
        \<lparr>cat_code = ''TLE'', cat_name = ''Timeout'', cat_count = 0\<rparr>,
        \<lparr>cat_code = ''ERR'', cat_name = ''Error'', cat_count = 0\<rparr>],
     total_count = 8\<rparr>, 30)"
  by (simp add: add_to_result_data_def stats_world_def empty_world_def example_result_data_def
      RESULT_TO_TYPE_simps bump_def)

lemma nonneg_after_bump:
  assumes "\<forall>c \<in> set cs. 0 \<le> cat_count c"
  shows "(\<forall>c \<in> set (map (\<lambda>c. if cat_code c = code then c\<lparr>cat_count := cat_count c + delta\<rparr> else c) cs).
            0 \<le> cat_count c) =
         (\<forall>c \<in> set cs. cat_code c = code \<longrightarrow> 0 \<le> cat_count c + delta)"
  using assms by (induction cs) auto

lemma bump_taxonomy:
  assumes "taxonomy_shaped rd" and "RESULT_TO_TYPE r = Some code"
  shows "bump code delta rd =
      \<lparr>categories = map (\<lambda>c. if cat_code c = code
                                then c\<lparr>cat_count := cat_count c + delta\<rparr> else c) (categories rd),
       total_count = total_count rd + delta\<rparr>"
proof -
  from taxonomy_codes [OF assms] have d: "distinct (map cat_code (categories rd))"
    and m: "code \<in> set (map cat_code (categories rd))"
    by simp_all
  show ?thesis
    using bump_categories_fst [OF d, of code delta] bump_categories_snd [of code delta "categories rd"] m
    by (simp add: bump_def split_beta)
qed

text \<open>
  C2, amended. \<open>add_to_result_data\<close> adds the delta as it is and has no clamp: for a
  result code with a taxonomy mapping and a cached breakdown, the count of the matching
  category and the total each change by exactly \<open>delta\<close>, and every other count stays.
  Hence, from a breakdown whose counts and total are not negative, the counts and the
  total after the call are not negative if and only if the count of the matching category
  plus \<open>delta\<close> and the total plus \<open>delta\<close> are not negative: that is left to the caller.
\<close>

theorem add_to_result_data_unclamped:
  assumes "global_submission_result_data w = Some (rd, ttl)" and "taxonomy_shaped rd"
    and "RESULT_TO_TYPE r = Some code"
  shows "\<exists>rd'.
      global_submission_result_data (add_to_result_data interval (Some r) delta w) = Some (rd', interval) \<and>
      map cat_code (categories rd') = map cat_code (categories rd) \<and>
      map cat_count (categories rd') =
        map (\<lambda>c. if cat_code c = code then cat_count c + delta else cat_count c) (categories rd) \<and>
      total_count rd' = total_count rd + delta \<and>
      ((\<forall>c \<in> set (categories rd). 0 \<le> cat_count c) \<and> 0 \<le> total_count rd \<longrightarrow>
         ((\<forall>c \<in> set (categories rd'). 0 \<le> cat_count c) \<and> 0 \<le> total_count rd') =
         ((\<forall>c \<in> set (categories rd). cat_code c = code \<longrightarrow> 0 \<le> cat_count c + delta) \<and>
          0 \<le> total_count rd + delta))"
proof -
  let ?g = "\<lambda>c. if cat_code c = code then c\<lparr>cat_count := cat_count c + delta\<rparr> else c"
  let ?rd' = "\<lparr>categories = map ?g (categories rd), total_count = total_count rd + delta\<rparr>"
  have b: "bump code delta rd = ?rd'"
    using assms(2,3) by (rule bump_taxonomy)
  have c: "global_submission_result_data (add_to_result_data interval (Some r) delta w) =
      Some (?rd', interval)"
    using assms(1,3) b by (simp add: add_to_result_data_def)
  have codes: "map cat_code (categories ?rd') = map cat_code (categories rd)"
    by (induction "categories rd") auto
  have counts: "map cat_count (categories ?rd') =
      map (\<lambda>c. if cat_code c = code then cat_count c + delta else cat_count c) (categories rd)"
    by (induction "categories rd") auto
  have sign: "(\<forall>c \<in> set (categories rd). 0 \<le> cat_count c) \<and> 0 \<le> total_count rd \<longrightarrow>
         ((\<forall>c \<in> set (categories ?rd'). 0 \<le> cat_count c) \<and> 0 \<le> total_count ?rd') =
         ((\<forall>c \<in> set (categories rd). cat_code c = code \<longrightarrow> 0 \<le> cat_count c + delta) \<and>
          0 \<le> total_count rd + delta)"
  proof (intro impI)
    assume h: "(\<forall>c \<in> set (categories rd). 0 \<le> cat_count c) \<and> 0 \<le> total_count rd"
    then have "\<forall>c \<in> set (categories rd). 0 \<le> cat_count c" by simp
    then have n: "(\<forall>c \<in> set (map ?g (categories rd)). 0 \<le> cat_count c) =
        (\<forall>c \<in> set (categories rd). cat_code c = code \<longrightarrow> 0 \<le> cat_count c + delta)"
      by (rule nonneg_after_bump)
    show "((\<forall>c \<in> set (categories ?rd'). 0 \<le> cat_count c) \<and> 0 \<le> total_count ?rd') =
         ((\<forall>c \<in> set (categories rd). cat_code c = code \<longrightarrow> 0 \<le> cat_count c + delta) \<and>
          0 \<le> total_count rd + delta)"
      by (simp only: result_data.select_convs n)
  qed
  from c codes counts sign show ?thesis
    by (intro exI [of _ ?rd']) simp
qed

theorem add_to_result_data_unclamped_witness:
  "global_submission_result_data (add_to_result_data 30 (Some ''WA'') (- 3) stats_world) =
     Some (\<lparr>categories =
       [\<lparr>cat_code = ''AC'', cat_name = ''Accepted'', cat_count = 10\<rparr>,
        \<lparr>cat_code = ''WA'', cat_name = ''Wrong'', cat_count = 2\<rparr>,
        \<lparr>cat_code = ''CE'', cat_name = ''Compile Error'', cat_count = 0\<rparr>,
        \<lparr>cat_code = ''TLE'', cat_name = ''Timeout'', cat_count = 0\<rparr>,
        \<lparr>cat_code = ''ERR'', cat_name = ''Error'', cat_count = 0\<rparr>],
     total_count = 12\<rparr>, 30)"
proof -
  have c: "global_submission_result_data stats_world = Some (example_result_data, 60)"
    by (simp add: stats_world_def)
  have s: "taxonomy_shaped example_result_data"
    by (simp add: taxonomy_shaped_def example_result_data_def RESULT_TYPES_def)
  have m: "RESULT_TO_TYPE ''WA'' = Some ''WA''"
    by (simp add: RESULT_TO_TYPE_simps)
  note t = add_to_result_data_unclamped [OF c s m, of 30 "- 3"]
  show ?thesis
    using t
    by (simp add: add_to_result_data_def stats_world_def empty_world_def example_result_data_def
        RESULT_TO_TYPE_simps bump_def)
qed

section \<open>Properties of the ID-set cache\<close>

lemma history_queries:
  "user_completed_query history_world 1 = [5]"
  "user_completed_query history_world 2 = []"
  "contest_completed_query history_world 9 = [5]"
  by (simp_all add: user_completed_query_def contest_completed_query_def history_world_def
      empty_world_def mk_submission_def problem_5_def problem_1_def)

lemma completed_ids_hit:
  "user_complete w profile = Some (result, ttl) \<Longrightarrow> user_completed_ids profile w = (result, w)"
  "contest_complete w participation = Some (result, ttl) \<Longrightarrow>
     contest_completed_ids participation w = (result, w)"
  by (simp_all add: user_completed_ids_def contest_completed_ids_def)

text \<open>
  C9. The completed-ids query of a profile returns each problem id at most once, and
  its ids are exactly the problems for which some submission of that profile has the
  result \<open>AC\<close> and points equal to the points of the problem; on a cache miss
  \<open>user_completed_ids\<close> returns this set and stores it for 86400 seconds. The same
  holds for a contest participation, with the points of the contest problem.
\<close>

theorem completed_ids_exact:
  "distinct (user_completed_query w profile) \<and>
   set (user_completed_query w profile) =
     {pid. \<exists>s \<in> set (Submission_objects w).
             submission_user s = profile \<and> submission_result s = Some ''AC'' \<and>
             submission_points s = problem_points (submission_problem s) \<and>
             problem_id (submission_problem s) = pid} \<and>
   (user_complete w profile = None \<longrightarrow>
      user_completed_ids profile w =
        (set (user_completed_query w profile),
         w\<lparr>user_complete := (user_complete w)(profile \<mapsto> (set (user_completed_query w profile), 86400))\<rparr>)) \<and>
   distinct (contest_completed_query w participation) \<and>
   set (contest_completed_query w participation) =
     {pid. \<exists>cs \<in> set (ContestSubmission_objects w).
             contest_submission_participation cs = participation \<and>
             submission_result (contest_submission_submission cs) = Some ''AC'' \<and>
             contest_submission_points cs = contest_problem_points (contest_submission_problem cs) \<and>
             problem_id (contest_problem_problem (contest_submission_problem cs)) = pid} \<and>
   (contest_complete w participation = None \<longrightarrow>
      contest_completed_ids participation w =
        (set (contest_completed_query w participation),
         w\<lparr>contest_complete :=
             (contest_complete w)(participation \<mapsto> (set (contest_completed_query w participation), 86400))\<rparr>))"
proof (intro conjI impI)
  show "distinct (user_completed_query w profile)"
    by (simp add: user_completed_query_def)
  show "distinct (contest_completed_query w participation)"
    by (simp add: contest_completed_query_def)
  show "set (user_completed_query w profile) =
     {pid. \<exists>s \<in> set (Submission_objects w).
             submission_user s = profile \<and> submission_result s = Some ''AC'' \<and>
             submission_points s = problem_points (submission_problem s) \<and>
             problem_id (submission_problem s) = pid}"
    by (auto simp: user_completed_query_def)
  show "set (contest_completed_query w participation) =
     {pid. \<exists>cs \<in> set (ContestSubmission_objects w).
             contest_submission_participation cs = participation \<and>
             submission_result (contest_submission_submission cs) = Some ''AC'' \<and>
             contest_submission_points cs = contest_problem_points (contest_submission_problem cs) \<and>
             problem_id (contest_problem_problem (contest_submission_problem cs)) = pid}"
    by (auto simp: contest_completed_query_def)
next
  assume "user_complete w profile = None"
  then show "user_completed_ids profile w =
        (set (user_completed_query w profile),
         w\<lparr>user_complete := (user_complete w)(profile \<mapsto> (set (user_completed_query w profile), 86400))\<rparr>)"
    by (simp add: user_completed_ids_def Let_def)
next
  assume "contest_complete w participation = None"
  then show "contest_completed_ids participation w =
        (set (contest_completed_query w participation),
         w\<lparr>contest_complete :=
             (contest_complete w)(participation \<mapsto> (set (contest_completed_query w participation), 86400))\<rparr>)"
    by (simp add: contest_completed_ids_def Let_def)
qed

theorem completed_ids_exact_witness:
  "user_completed_query history_world 1 = [5] \<and>
   fst (user_completed_ids 1 history_world) = {5} \<and>
   fst (user_completed_ids 2 history_world) = {} \<and>
   contest_completed_query history_world 9 = [5] \<and>
   fst (contest_completed_ids 9 history_world) = {5}"
proof -
  have m: "user_complete history_world 1 = None" "user_complete history_world 2 = None"
    "contest_complete history_world 9 = None"
    by (simp_all add: history_world_def empty_world_def)
  from completed_ids_exact [of history_world 1 9] m
  have a: "fst (user_completed_ids 1 history_world) = set (user_completed_query history_world 1)"
    and c: "fst (contest_completed_ids 9 history_world) = set (contest_completed_query history_world 9)"
    by simp_all
  from completed_ids_exact [of history_world 2 9] m
  have b: "fst (user_completed_ids 2 history_world) = set (user_completed_query history_world 2)"
    by simp
  show ?thesis
    using a b c by (simp add: history_queries)
qed

section \<open>Properties of the hot-problem ranking\<close>

lemma mset_insort_desc: "mset (insort_desc f x xs) = add_mset x (mset xs)"
  by (induction xs) simp_all

lemma mset_order_by_desc: "mset (order_by_desc f xs) = mset xs"
  by (induction xs) (simp_all add: order_by_desc_def mset_insort_desc)

lemma set_order_by_desc: "set (order_by_desc f xs) = set xs"
  using mset_order_by_desc [of f xs] by (metis set_mset_mset)

lemma set_insort_desc: "set (insort_desc f x xs) = insert x (set xs)"
  using mset_insort_desc [of f x xs] by (metis set_mset_mset set_mset_add_mset_insert)

lemma sorted_insort_desc:
  "sorted_wrt (\<lambda>a b. f b \<le> f a) xs \<Longrightarrow> sorted_wrt (\<lambda>a b. f b \<le> f a) (insort_desc f x xs)"
proof (induction xs)
  case Nil
  show ?case by simp
next
  case (Cons y ys)
  show ?case
  proof (cases "f y \<le> f x")
    case True
    with Cons.prems show ?thesis by auto
  next
    case False
    then have "f x \<le> f y" by simp
    with False Cons show ?thesis by (auto simp: set_insort_desc)
  qed
qed

lemma sorted_order_by_desc: "sorted_wrt (\<lambda>a b. f b \<le> f a) (order_by_desc f xs)"
  by (induction xs) (simp_all add: order_by_desc_def sorted_insort_desc)

lemma filter_insort_desc:
  "filter (\<lambda>y. f y = v) (insort_desc f x xs) =
    (if f x = v then x # filter (\<lambda>y. f y = v) xs else filter (\<lambda>y. f y = v) xs)"
  by (induction xs) auto

lemma order_by_desc_stable:
  "filter (\<lambda>y. f y = v) (order_by_desc f xs) = filter (\<lambda>y. f y = v) xs"
  by (induction xs) (simp_all add: order_by_desc_def filter_insort_desc)

lemma set_primary_key_order: "set (primary_key_order rows) = set rows"
  by (simp add: primary_key_order_def)





lemma hot_mx_Max:
  assumes "hot_mx w since = Some mx"
  shows "hot_candidates w since \<noteq> []"
    and "mx = real (Max (unique_user_count w since ` set (hot_candidates w since)))"
proof -
  let ?ks = "map (unique_user_count w since) (hot_candidates w since)"
  from assms obtain k rest where r: "rev (sort ?ks) = k # rest" and mx: "mx = real k"
    by (auto simp: hot_mx_def split: list.splits)
  from r show ne: "hot_candidates w since \<noteq> []" by auto
  from r have s: "sort ?ks = rev rest @ [k]" by (metis rev.simps(2) rev_rev_ident)
  have "sorted (sort ?ks)" by simp
  with s have le: "\<forall>x \<in> set (rev rest). x \<le> k" by (simp add: sorted_append)
  have "set (sort ?ks) = set ?ks" by simp
  with s have mem: "set ?ks = insert k (set rest)" by auto
  have "Max (set ?ks) = k"
  proof (rule Max_eqI)
    show "finite (set ?ks)" by simp
    show "k \<in> set ?ks" using mem by simp
    fix y assume "y \<in> set ?ks"
    with mem le show "y \<le> k" by auto
  qed
  with mx show "mx = real (Max (unique_user_count w since ` set (hot_candidates w since)))"
    by simp
qed

lemma candidate_has_user:
  assumes "p \<in> set (hot_candidates w since)"
  shows "1 \<le> unique_user_count w since p"
proof -
  from assms have "window_submissions w since p \<noteq> []" by (simp add: hot_candidates_def)
  then have "remdups (map submission_user (window_submissions w since p)) \<noteq> []" by simp
  then show ?thesis
    unfolding unique_user_count_def by (cases "remdups (map submission_user (window_submissions w since p))") simp_all
qed

lemma hot_mx_bounds:
  assumes "hot_mx w since = Some mx"
  shows "1 \<le> mx" and "\<forall>p \<in> set (hot_candidates w since). real (unique_user_count w since p) \<le> mx"
proof -
  let ?K = "unique_user_count w since ` set (hot_candidates w since)"
  from hot_mx_Max [OF assms] have ne: "hot_candidates w since \<noteq> []" and mx: "mx = real (Max ?K)"
    by simp_all
  have fin: "finite ?K" by simp
  show b: "\<forall>p \<in> set (hot_candidates w since). real (unique_user_count w since p) \<le> mx"
    using fin mx by (simp add: Max_ge)
  from ne obtain p where p: "p \<in> set (hot_candidates w since)" by (cases "hot_candidates w since") auto
  with candidate_has_user have "1 \<le> real (unique_user_count w since p)" by fastforce
  with b p show "1 \<le> mx" by fastforce
qed

lemma hot_problems_miss:
  assumes "hot_problems_cache w (duration, limit) = None" and "hot_mx w (now - duration) = Some mx"
  shows "fst (hot_problems now duration limit w) =
    take limit (order_by_desc (ordering_score w (now - duration) mx)
                  (primary_key_order (hot_survivors w (now - duration) mx)))"
  using assms by (simp add: hot_problems_def Let_def)






lemmas hot_defs =
  hot_problems_def hot_mx_def hot_survivors_def hot_candidates_def
  popularity_floor_def unique_user_count_def window_submissions_def submission_volume_def
  ac_volume_def ordering_score_def sql_add_def sql_mul_def sql_pow_def sql_div_def sql_lift_def
  order_by_desc_def primary_key_order_def Let_def mk_submission_def problem_1_def problem_2_def empty_world_def

lemma compile_error_world_eval:
  "hot_problems_cache compile_error_world (150, 10) = None"
  "hot_mx compile_error_world 50 = Some 2"
  "hot_survivors compile_error_world 50 2 = [problem_1]"
  "submission_volume compile_error_world 50 problem_1 = 0"
  "unique_user_count compile_error_world 50 problem_1 = 2"
  by (simp_all add: hot_defs compile_error_world_def)

lemma tie_world_eval:
  "hot_problems_cache tie_world (150, 10) = None"
  "hot_problems_cache tie_world (150, 1) = None"
  "hot_mx tie_world 50 = Some 2"
  "hot_survivors tie_world 50 2 = [problem_2, problem_1]"
  "primary_key_order [problem_2, problem_1] = [problem_1, problem_2]"
  "distinct (map problem_id (Problem_objects tie_world))"
  "submission_volume tie_world 50 problem_1 = 2"
  "submission_volume tie_world 50 problem_2 = 2"
  "ac_volume tie_world 50 problem_1 = 1"
  "ac_volume tie_world 50 problem_2 = 1"
  "unique_user_count tie_world 50 problem_1 = 2"
  "unique_user_count tie_world 50 problem_2 = 2"
  by (simp_all add: hot_defs tie_world_def)


lemma sparse_world_eval:
  "hot_problems_cache sparse_world (150, 10) = None"
  "hot_mx sparse_world (200 - 150) = Some 1"
  by (simp_all add: hot_defs sparse_world_def)

lemma problem_fields:
  "problem_points problem_1 = 10" "problem_ac_rate problem_1 = 1 / 2"
  "problem_points problem_2 = 10" "problem_ac_rate problem_2 = 1 / 2"
  "problem_id problem_1 = 1" "problem_id problem_2 = 2"
  by (simp_all add: problem_1_def problem_2_def)

text \<open>
  C3, as stated, fails: the division by \<open>submission_volume\<close> has no guard. Two
  users submit to problem 1 and both get a compile error: the problem survives the
  popularity floor, its \<open>submission_volume\<close> is 0, the division is evaluated with
  divisor 0 and the ordering score is NULL, not the score with a quality term of 0;
  the problem is in the ranking.
\<close>

theorem hot_problems_division_counterexample:
  "hot_mx compile_error_world (200 - 150) = Some 2 \<and>
   problem_1 \<in> set (hot_survivors compile_error_world (200 - 150) 2) \<and>
   submission_volume compile_error_world (200 - 150) problem_1 = 0 \<and>
   ordering_score compile_error_world (200 - 150) 2 problem_1 = None \<and>
   fst (hot_problems 200 150 10 compile_error_world) = [problem_1]"
  by (simp add: hot_defs compile_error_world_def)

text \<open>
  C3, amended. For every candidate whose \<open>submission_volume\<close> is not zero the
  ordering score is the formula, with \<open>mx\<close> the largest unique-user count. For a
  candidate whose \<open>submission_volume\<close> is zero the division is evaluated with a
  zero divisor and the score has no value (NULL).
\<close>

theorem ordering_value:
  assumes "hot_mx w since = Some mx"
  shows "ordering_score w since mx p =
    (if submission_volume w since p = 0 then None
     else Some (0.5 * problem_points p *
                  (0.4 * real (ac_volume w since p) / real (submission_volume w since p) +
                   0.6 * problem_ac_rate p) +
                100 * exp 1 powr (real (unique_user_count w since p) / mx)))"
proof -
  from hot_mx_bounds(1) [OF assms] have "mx \<noteq> 0" by simp
  then show ?thesis
    by (simp add: ordering_score_def sql_add_def sql_mul_def sql_pow_def sql_div_def sql_lift_def)
qed

theorem ordering_value_witness:
  "ordering_score tie_world 50 2 problem_1 = Some (5 / 2 + 100 * exp 1) \<and>
   ordering_score compile_error_world 50 2 problem_1 = None"
  using ordering_value [OF tie_world_eval(3), of problem_1]
    ordering_value [OF compile_error_world_eval(2), of problem_1]
  by (simp add: tie_world_eval compile_error_world_eval problem_fields)

text \<open>
  With equal scores, both orders of problems 1 and 2 are descending by the key: the key of
  \<open>order_by\<close> alone does not fix the order of the ranking. The order of the primary key,
  in which the rows reach the sort, does.
\<close>

lemma tie_world_both_orders:
  "sorted_wrt (\<lambda>p q. ordering_score tie_world 50 2 q \<le> ordering_score tie_world 50 2 p)
     [problem_2, problem_1]"
  "sorted_wrt (\<lambda>p q. ordering_score tie_world 50 2 q \<le> ordering_score tie_world 50 2 p)
     [problem_1, problem_2]"
  by (simp_all add: ordering_score_def tie_world_eval problem_fields)



text \<open>
  C5, as stated, fails: the floor is \<open>max(mx / 3.0, 1)\<close>. With \<open>mx = 2\<close>, which
  is at most 3, both problems have 2 unique users, more than the floor of 1, and the
  ranking is not empty.
\<close>

theorem hot_problems_floor_counterexample:
  "hot_mx tie_world (200 - 150) = Some 2 \<and> (2::real) \<le> 3 \<and>
   fst (hot_problems 200 150 10 tie_world) = [problem_1, problem_2]"
  by (simp add: hot_defs tie_world_def)

text \<open>
  C5, amended. On a cache miss with at least one candidate, \<open>mx\<close> is the largest
  unique-user count and is positive; every candidate whose unique-user count is at most
  \<open>max (mx / 3) 1\<close>, hence every candidate at or below \<open>mx / 3\<close>, is excluded from the
  ranking; whenever \<open>mx \<le> 1\<close> the ranking is empty.
\<close>

theorem hot_problems_floor:
  assumes "hot_problems_cache w (duration, limit) = None"
    and "hot_mx w (now - duration) = Some mx"
  shows "mx = real (Max (unique_user_count w (now - duration) ` set (hot_candidates w (now - duration)))) \<and>
    0 < mx \<and>
    (\<forall>p. real (unique_user_count w (now - duration) p) \<le> max (mx / 3) 1 \<longrightarrow>
         p \<notin> set (fst (hot_problems now duration limit w))) \<and>
    (mx \<le> 1 \<longrightarrow> fst (hot_problems now duration limit w) = [])"
proof (intro conjI allI impI)
  let ?since = "now - duration"
  let ?out = "fst (hot_problems now duration limit w)"
  show "mx = real (Max (unique_user_count w ?since ` set (hot_candidates w ?since)))"
    using assms(2) by (rule hot_mx_Max(2))
  from hot_mx_bounds(1) [OF assms(2)] show "0 < mx" by simp
  have out: "set ?out \<subseteq> set (hot_survivors w ?since mx)"
    using hot_problems_miss [OF assms] set_take_subset [of limit]
    by (metis set_order_by_desc set_primary_key_order)
  {
    fix p
    assume "real (unique_user_count w ?since p) \<le> max (mx / 3) 1"
    then have "\<not> popularity_floor mx < real (unique_user_count w ?since p)"
      unfolding popularity_floor_def by linarith
    then have "p \<notin> set (hot_survivors w ?since mx)"
      by (simp add: hot_survivors_def)
    with out show "p \<notin> set ?out" by blast
  }
  {
    assume small: "mx \<le> 1"
    have "hot_survivors w ?since mx = []"
      unfolding hot_survivors_def filter_empty_conv
    proof (intro ballI)
      fix p
      assume "p \<in> set (hot_candidates w ?since)"
      with hot_mx_bounds(2) [OF assms(2)] have "real (unique_user_count w ?since p) \<le> mx" by blast
      with small show "\<not> popularity_floor mx < real (unique_user_count w ?since p)"
        unfolding popularity_floor_def by linarith
    qed
    with out show "?out = []" by simp
  }
qed

theorem hot_problems_floor_witness:
  "hot_mx sparse_world (200 - 150) = Some 1 \<and> fst (hot_problems 200 150 10 sparse_world) = []"
  using hot_problems_floor [OF sparse_world_eval] sparse_world_eval(2) by simp

section \<open>Properties of rejudge and rescore\<close>

subsection \<open>Doubles\<close>

lemma floor_log2_eq:
  assumes "2 powr (of_int e) \<le> x" and "x < 2 powr (of_int e + 1)"
  shows "\<lfloor>log 2 x\<rfloor> = e"
proof -
  have "(0::real) < 2 powr (of_int e)" by simp
  with assms(1) have pos: "0 < x" by linarith
  have "of_int e \<le> log 2 x"
    using assms(1) pos by (simp add: le_log_iff)
  moreover have "log 2 x < of_int e + 1"
    using assms(2) pos by (simp add: log_less_iff)
  ultimately show ?thesis by (simp add: floor_eq_iff)
qed

text \<open>
  How to compute \<open>double_of\<close>: with the binary exponent \<open>e\<close> of \<open>x\<close>, the double is the
  significand \<open>m\<close>, the nearest integer to \<open>x / 2\<^sup>e\<^sup>-\<^sup>5\<^sup>2\<close>, times \<open>2\<^sup>e\<^sup>-\<^sup>5\<^sup>2\<close>.
\<close>

lemma double_of_eval:
  assumes "x \<noteq> 0" and "2 powr (of_int e) \<le> \<bar>x\<bar>" and "\<bar>x\<bar> < 2 powr (of_int e + 1)"
    and "round_half_even (x / 2 powr (of_int e - 52)) = m"
  shows "double_of x = of_int m * 2 powr (of_int e - 52)"
  using assms(1,4) floor_log2_eq [OF assms(2,3)] by (simp add: double_of_def Let_def)

lemma two_powr:
  "(2::real) powr (- numeral n) = 1 / 2 ^ numeral n"
  "(2::real) powr (numeral n) = 2 ^ numeral n"
  "(2::real) powr (- 1) = 1 / 2"
  "(2::real) powr 0 = 1"
  "(2::real) powr 1 = 2"
  by (simp_all add: powr_minus_divide flip: powr_realpow)

lemmas double_evals = two_powr round_half_even_def Let_def

lemma double_of_0: "double_of 0 = 0"
  by (simp add: double_of_def)

lemma double_of_80: "double_of 80 = 80"
  using double_of_eval [of 80 6 5629499534213120] by (simp add: double_evals)

lemma double_of_tenth: "double_of (1 / 10) = 3602879701896397 / 36028797018963968"
  using double_of_eval [of "1 / 10" "- 4" 7205759403792794] by (simp add: double_evals)

lemma double_of_fifth: "double_of (1 / 5) = 3602879701896397 / 18014398509481984"
  using double_of_eval [of "1 / 5" "- 3" 7205759403792794] by (simp add: double_evals)

lemma double_of_three_tenths: "double_of (3 / 10) = 5404319552844595 / 18014398509481984"
  using double_of_eval [of "3 / 10" "- 2" 5404319552844595] by (simp add: double_evals)

text \<open>\<open>80 / 100 * 100\<close> is 80, through the double 0.8.\<close>

lemma float_div_80_100: "float_div 80 100 = 3602879701896397 / 4503599627370496"
  using double_of_eval [of "80 / 100" "- 1" 7205759403792794]
  by (simp add: float_div_def double_evals)

lemma float_mul_08_100: "float_mul (3602879701896397 / 4503599627370496) 100 = 80"
  using double_of_eval [of "3602879701896397 / 4503599627370496 * 100" 6 5629499534213120]
  by (simp add: float_mul_def double_evals)

text \<open>
  \<open>3 / 20\<close> and \<open>7 / 20\<close> are the doubles just below 0.15 and 0.35, and \<open>1 / 4\<close> is
  exact.
\<close>

lemma float_div_3_20: "float_div 3 20 = 5404319552844595 / 36028797018963968"
  using double_of_eval [of "3 / 20" "- 3" 5404319552844595]
  by (simp add: float_div_def double_evals)

lemma float_mul_015_1: "float_mul (5404319552844595 / 36028797018963968) 1 = 5404319552844595 / 36028797018963968"
  using double_of_eval [of "5404319552844595 / 36028797018963968 * 1" "- 3" 5404319552844595]
  by (simp add: float_mul_def double_evals)

lemma float_div_7_20: "float_div 7 20 = 3152519739159347 / 9007199254740992"
  using double_of_eval [of "7 / 20" "- 2" 6305039478318694]
  by (simp add: float_div_def double_evals)

lemma float_mul_035_1: "float_mul (3152519739159347 / 9007199254740992) 1 = 3152519739159347 / 9007199254740992"
  using double_of_eval [of "3152519739159347 / 9007199254740992 * 1" "- 2" 6305039478318694]
  by (simp add: float_mul_def double_evals)

lemma float_div_1_4: "float_div 1 4 = 1 / 4"
  using double_of_eval [of "1 / 4" "- 2" 4503599627370496]
  by (simp add: float_div_def double_evals)

lemma float_mul_025_1: "float_mul (1 / 4) 1 = 1 / 4"
  using double_of_eval [of "1 / 4 * 1" "- 2" 4503599627370496]
  by (simp add: float_mul_def double_evals)

subsection \<open>Rounding to one decimal\<close>

lemma round_half_even_near: "\<bar>of_int (round_half_even y) - y\<bar> \<le> 1 / 2"
  unfolding round_half_even_def Let_def by (auto split: if_splits)

lemma decimal_round1_0: "decimal_round1 py 0 = 0"
  by (simp add: decimal_round1_def)

lemma decimal_round1_tenths: "\<exists>k::int. decimal_round1 py x = of_int k / 10"
proof -
  let ?n = "case py of Python2 \<Rightarrow> \<lfloor>\<bar>x\<bar> * 10 + 1 / 2\<rfloor> | Python3 \<Rightarrow> round_half_even (\<bar>x\<bar> * 10)"
  consider "x = 0" | "0 < x" | "x < 0" by linarith
  then show ?thesis
  proof cases
    case 1
    then have "decimal_round1 py x = of_int 0 / 10" by (simp add: decimal_round1_def)
    then show ?thesis by blast
  next
    case 2
    then have "decimal_round1 py x = of_int ?n / 10" by (simp add: decimal_round1_def)
    then show ?thesis by blast
  next
    case 3
    then have "decimal_round1 py x = of_int (- ?n) / 10" by (simp add: decimal_round1_def)
    then show ?thesis by blast
  qed
qed

lemma decimal_round1_near: "\<bar>decimal_round1 py x - x\<bar> \<le> 1 / 20"
proof -
  define r :: real where
    "r = of_int (case py of Python2 \<Rightarrow> \<lfloor>\<bar>x\<bar> * 10 + 1 / 2\<rfloor> | Python3 \<Rightarrow> round_half_even (\<bar>x\<bar> * 10))"
  have n: "\<bar>r - \<bar>x\<bar> * 10\<bar> \<le> 1 / 2"
  proof (cases py)
    case Python2
    have "of_int \<lfloor>\<bar>x\<bar> * 10 + 1 / 2\<rfloor> \<le> \<bar>x\<bar> * 10 + 1 / 2"
      and "\<bar>x\<bar> * 10 + 1 / 2 < of_int \<lfloor>\<bar>x\<bar> * 10 + 1 / 2\<rfloor> + 1"
      by linarith+
    then have "\<bar>of_int \<lfloor>\<bar>x\<bar> * 10 + 1 / 2\<rfloor> - \<bar>x\<bar> * 10\<bar> \<le> 1 / 2" by linarith
    with Python2 show ?thesis by (simp add: r_def)
  next
    case Python3
    then show ?thesis using round_half_even_near [of "\<bar>x\<bar> * 10"] by (simp add: r_def)
  qed
  have d: "decimal_round1 py x = sgn x * r / 10"
    by (simp add: decimal_round1_def r_def)
  consider "x = 0" | "0 < x" | "x < 0" by linarith
  then show ?thesis
  proof cases
    case 1
    then show ?thesis by (simp add: decimal_round1_0)
  next
    case 2
    then have "decimal_round1 py x = r / 10" by (simp add: d)
    with n 2 show ?thesis by linarith
  next
    case 3
    then have "decimal_round1 py x = - r / 10" by (simp add: d)
    with n 3 show ?thesis by linarith
  qed
qed

text \<open>An exact half goes away from zero in Python 2 and to the even digit in Python 3.\<close>

lemma decimal_round1_half:
  "decimal_round1 Python2 (1 / 4) = 3 / 10" "decimal_round1 Python3 (1 / 4) = 1 / 5"
  "decimal_round1 Python2 (- (1 / 4)) = - (3 / 10)" "decimal_round1 Python3 (- (1 / 4)) = - (1 / 5)"
  by (simp_all add: decimal_round1_def round_half_even_def Let_def)

lemma decimal_round1_values:
  "decimal_round1 py 80 = 80"
  "decimal_round1 py (5404319552844595 / 36028797018963968) = 1 / 10"
  "decimal_round1 py (3152519739159347 / 9007199254740992) = 3 / 10"
  by (cases py; simp add: decimal_round1_def round_half_even_def Let_def)+

lemma py_round1_values:
  "py_round1 py 0 = 0"
  "py_round1 py 80 = 80"
  "py_round1 py (5404319552844595 / 36028797018963968) = 3602879701896397 / 36028797018963968"
  "py_round1 py (3152519739159347 / 9007199254740992) = 5404319552844595 / 18014398509481984"
  "py_round1 Python2 (1 / 4) = 5404319552844595 / 18014398509481984"
  "py_round1 Python3 (1 / 4) = 3602879701896397 / 18014398509481984"
  by (simp_all add: py_round1_def decimal_round1_0 decimal_round1_values decimal_round1_half
      double_of_0 double_of_80 double_of_tenth double_of_fifth double_of_three_tenths)

text \<open>
  \<open>round(x, 1)\<close> is the double of a decimal with one digit after the point that is
  within half a tenth of \<open>x\<close>.
\<close>

lemma py_round1_decimal:
  "\<exists>k::int. py_round1 py x = double_of (of_int k / 10) \<and> \<bar>of_int k / 10 - x\<bar> \<le> 1 / 20"
proof -
  from decimal_round1_tenths obtain k :: int where k: "decimal_round1 py x = of_int k / 10"
    by blast
  with decimal_round1_near [of py x] have near: "\<bar>of_int k / 10 - x\<bar> \<le> 1 / 20" by simp
  have "py_round1 py x = double_of (of_int k / 10)" by (simp only: py_round1_def k)
  with near show ?thesis by blast
qed

subsection \<open>The rescore loop\<close>

lemma rescored_points_ignores_points [simp]:
  "rescored_points py (row\<lparr>submission_points := x\<rparr>) = rescored_points py row"
  by (simp add: rescored_points_def)

lemma rescore_loop_frame:
  "rescore_loop py subs w = w\<lparr>Submission_objects := Submission_objects (rescore_loop py subs w)\<rparr>"
proof (induction subs arbitrary: w)
  case Nil
  show ?case by simp
next
  case (Cons s rest)
  let ?w1 = "save (s\<lparr>submission_points := rescored_points py s\<rparr>) w"
  have "rescore_loop py (s # rest) w = rescore_loop py rest ?w1" by simp
  also have "\<dots> = ?w1\<lparr>Submission_objects := Submission_objects (rescore_loop py rest ?w1)\<rparr>"
    by (rule Cons.IH)
  also have "\<dots> = w\<lparr>Submission_objects := Submission_objects (rescore_loop py rest ?w1)\<rparr>"
    by (simp add: save_def)
  finally show ?case by simp
qed

lemma rescore_loop_store:
  assumes "\<forall>s \<in> set subs. \<forall>row \<in> set (Submission_objects w).
      submission_id row = submission_id s \<longrightarrow> rescored_points py row = rescored_points py s"
  shows "Submission_objects (rescore_loop py subs w) =
    map (\<lambda>row. if submission_id row \<in> submission_id ` set subs
                then row\<lparr>submission_points := rescored_points py row\<rparr> else row)
        (Submission_objects w)"
  using assms
proof (induction subs arbitrary: w)
  case Nil
  show ?case by (simp add: map_idI)
next
  case (Cons s rest)
  let ?w1 = "save (s\<lparr>submission_points := rescored_points py s\<rparr>) w"
  let ?g = "\<lambda>row. if submission_id row = submission_id s
                    then row\<lparr>submission_points := rescored_points py s\<rparr> else row"
  have w1: "Submission_objects ?w1 = map ?g (Submission_objects w)"
    by (simp add: save_def)
  have pre: "\<forall>s' \<in> set rest. \<forall>row \<in> set (Submission_objects ?w1).
      submission_id row = submission_id s' \<longrightarrow> rescored_points py row = rescored_points py s'"
    using Cons.prems by (auto simp: w1)
  have same: "\<forall>row \<in> set (Submission_objects w).
      submission_id row = submission_id s \<longrightarrow> rescored_points py row = rescored_points py s"
    using Cons.prems by simp
  have "Submission_objects (rescore_loop py (s # rest) w) = Submission_objects (rescore_loop py rest ?w1)"
    by simp
  also have "\<dots> = map (\<lambda>row. if submission_id row \<in> submission_id ` set rest
                then row\<lparr>submission_points := rescored_points py row\<rparr> else row)
        (map ?g (Submission_objects w))"
    using Cons.IH [OF pre] by (simp only: w1)
  also have "\<dots> = map (\<lambda>row. if submission_id row \<in> submission_id ` set (s # rest)
                then row\<lparr>submission_points := rescored_points py row\<rparr> else row)
        (Submission_objects w)"
    using same by (auto simp: o_def)
  finally show ?case .
qed

lemma profile_loop_eq:
  "profile_loop ps w =
    w\<lparr>calculated_points := calculated_points w @ ps,
      user_complete := (\<lambda>profile. if profile \<in> set ps then None else user_complete w profile)\<rparr>"
proof (induction ps arbitrary: w)
  case Nil
  show ?case by simp
next
  case (Cons p ps)
  show ?case by (rule world.equality) (auto simp: Cons.IH)
qed

lemma selected_same_id:
  assumes "distinct (map submission_id (Submission_objects w))"
    and "s \<in> set (selected w queryset)" and "row \<in> set (Submission_objects w)"
    and "submission_id row = submission_id s"
  shows "row = s"
proof -
  from assms(2) have "s \<in> set (Submission_objects w)" by (simp add: selected_def)
  with assms(1,3,4) show ?thesis by (meson distinct_map inj_onD)
qed

lemma selected_ids:
  "submission_id row \<in> submission_id ` set (selected w queryset) \<longleftrightarrow>
   (submission_id row \<in> set queryset \<and> submission_id row \<in> submission_id ` set (Submission_objects w))"
  by (auto simp: selected_def)

lemma recalculate_score_store:
  assumes "has_perm request ''judge.rejudge_submission''"
    and "distinct (map submission_id (Submission_objects w))"
  shows "Submission_objects (recalculate_score py request queryset w) =
     map (\<lambda>row. if submission_id row \<in> set queryset
                 then row\<lparr>submission_points := rescored_points py row\<rparr> else row)
         (Submission_objects w)"
proof -
  have pre: "\<forall>s \<in> set (selected w queryset). \<forall>row \<in> set (Submission_objects w).
      submission_id row = submission_id s \<longrightarrow> rescored_points py row = rescored_points py s"
    using selected_same_id [OF assms(2)] by blast
  have "Submission_objects (recalculate_score py request queryset w) =
      Submission_objects (rescore_loop py (selected w queryset) w)"
    using assms(1) by (simp add: recalculate_score_def Let_def message_user_def profile_loop_eq)
  also have "\<dots> = map (\<lambda>row. if submission_id row \<in> submission_id ` set (selected w queryset)
                then row\<lparr>submission_points := rescored_points py row\<rparr> else row)
        (Submission_objects w)"
    by (rule rescore_loop_store [OF pre])
  also have "\<dots> = map (\<lambda>row. if submission_id row \<in> set queryset
                 then row\<lparr>submission_points := rescored_points py row\<rparr> else row)
         (Submission_objects w)"
    by (rule map_cong) (auto simp: selected_ids)
  finally show ?thesis .
qed

lemma rescored_points_cases:
  "(0 < submission_case_total s \<longrightarrow>
      rescored_points py s =
        (let points = py_round1 py (float_mul (float_div (submission_case_points s)
                                                          (submission_case_total s))
                                               (problem_points (submission_problem s)))
         in if \<not> problem_partial (submission_problem s) \<and> points < problem_points (submission_problem s)
            then 0 else points)) \<and>
   (submission_case_total s = 0 \<longrightarrow> rescored_points py s = 0)"
  by (simp add: rescored_points_def py_round1_values Let_def)

lemma rescore_loop_keys:
  "map (\<lambda>row. (submission_id row, submission_user row)) (Submission_objects (rescore_loop py subs w)) =
   map (\<lambda>row. (submission_id row, submission_user row)) (Submission_objects w)"
proof (induction subs arbitrary: w)
  case Nil
  show ?case by simp
next
  case (Cons s rest)
  have "map (\<lambda>row. (submission_id row, submission_user row))
          (Submission_objects (save (s\<lparr>submission_points := rescored_points py s\<rparr>) w)) =
        map (\<lambda>row. (submission_id row, submission_user row)) (Submission_objects w)"
    by (induction "Submission_objects w") (simp_all add: save_def)
  with Cons.IH show ?case by simp
qed

lemma selected_users:
  "map submission_user (selected w queryset) =
   map snd (filter (\<lambda>key. fst key \<in> set queryset)
                   (map (\<lambda>row. (submission_id row, submission_user row)) (Submission_objects w)))"
  by (simp add: selected_def filter_map o_def)

lemma touched_profiles_rescore_loop:
  "touched_profiles (rescore_loop py subs w) queryset = touched_profiles w queryset"
proof -
  have "Profile_objects (rescore_loop py subs w) = Profile_objects w"
    using rescore_loop_frame [of py subs w]
    by (metis world.select_convs(4) world.surjective world.update_convs(1))
  moreover have "map submission_user (selected (rescore_loop py subs w) queryset) =
      map submission_user (selected w queryset)"
    by (simp only: selected_users rescore_loop_keys)
  ultimately show ?thesis by (simp add: touched_profiles_def)
qed

lemma recalculate_score_eq:
  assumes "has_perm request ''judge.rejudge_submission''"
    and "distinct (map submission_id (Submission_objects w))"
  shows "recalculate_score py request queryset w =
    w\<lparr>Submission_objects :=
        map (\<lambda>row. if submission_id row \<in> set queryset
                    then row\<lparr>submission_points := rescored_points py row\<rparr> else row)
            (Submission_objects w),
      calculated_points := calculated_points w @ touched_profiles w queryset,
      user_complete := (\<lambda>profile. if profile \<in> set (touched_profiles w queryset) then None
                                   else user_complete w profile),
      messages := messages w @ [Rescored_message (length (selected w queryset))]\<rparr>"
proof -
  define w1 where "w1 = rescore_loop py (selected w queryset) w"
  have r: "recalculate_score py request queryset w =
      message_user (Rescored_message (length (selected w queryset)))
        (profile_loop (touched_profiles w queryset) w1)"
    using assms(1) by (simp add: recalculate_score_def Let_def touched_profiles_rescore_loop w1_def)
  have s: "Submission_objects w1 =
      map (\<lambda>row. if submission_id row \<in> set queryset
                  then row\<lparr>submission_points := rescored_points py row\<rparr> else row)
          (Submission_objects w)"
    using recalculate_score_store [OF assms, of py queryset] assms(1)
    by (simp add: recalculate_score_def Let_def message_user_def profile_loop_eq w1_def)
  have "w1 = w\<lparr>Submission_objects := Submission_objects w1\<rparr>"
    unfolding w1_def by (rule rescore_loop_frame)
  with s have w1: "w1 = w\<lparr>Submission_objects :=
      map (\<lambda>row. if submission_id row \<in> set queryset
                  then row\<lparr>submission_points := rescored_points py row\<rparr> else row)
          (Submission_objects w)\<rparr>"
    by simp
  show ?thesis
    unfolding r by (simp add: profile_loop_eq message_user_def w1 cong: if_cong)
qed

lemma judge_loop_frame:
  "snd (judge_loop bridge qs n w) = w\<lparr>judged := judged w @ map submission_id qs\<rparr>"
  by (induction qs arbitrary: n w) simp_all

text \<open>
  The gates of \<open>judge\<close> and the gate of \<open>recalculate_score\<close>: a caller who
  fails a gate gets an error message, and nothing else in the world changes.
\<close>

lemma judge_gate:
  assumes "\<not> (has_perm request ''judge.rejudge_submission'' \<and> has_perm request ''judge.edit_own_problem'')"
  shows "judge bridge request queryset w =
    w\<lparr>messages := messages w @ [Error_message ''You do not have the permission to rejudge submissions.'']\<rparr>"
  using assms by (auto simp: judge_def message_user_def)

lemma judge_lot_gate:
  assumes "has_perm request ''judge.rejudge_submission''" and "has_perm request ''judge.edit_own_problem''"
    and "10 < length (selected w queryset)" and "\<not> has_perm request ''judge.rejudge_submission_lot''"
  shows "judge bridge request queryset w =
    w\<lparr>messages := messages w @
        [Error_message ''You do not have the permission to rejudge THAT many submissions.'']\<rparr>"
  using assms by (simp add: judge_def message_user_def Let_def)

lemma recalculate_score_gate:
  assumes "\<not> has_perm request ''judge.rejudge_submission''"
  shows "recalculate_score py request queryset w =
    w\<lparr>messages := messages w @ [Error_message ''You do not have the permission to rejudge submissions.'']\<rparr>"
  using assms by (simp add: recalculate_score_def message_user_def)

text \<open>
  \<open>recalculate_score\<close> never touches the cached attempt sets.
\<close>

lemma recalculate_score_user_attempted:
  "user_attempted (recalculate_score py request queryset w) = user_attempted w"
proof -
  have "user_attempted (rescore_loop py subs w) = user_attempted w" for subs
    using rescore_loop_frame [of py subs w] by (metis world.select_convs(7) world.surjective world.update_convs(1))
  then show ?thesis
    by (simp add: recalculate_score_def message_user_def Let_def profile_loop_eq)
qed

lemma selected_of_rows:
  assumes "distinct (map submission_id (Submission_objects w))"
  shows "selected w (map submission_id (filter Q (Submission_objects w))) = filter Q (Submission_objects w)"
proof -
  have "(submission_id s \<in> set (map submission_id (filter Q (Submission_objects w)))) = Q s"
    if "s \<in> set (Submission_objects w)" for s
  proof
    assume "submission_id s \<in> set (map submission_id (filter Q (Submission_objects w)))"
    then obtain s' where s': "s' \<in> set (Submission_objects w)" "Q s'" "submission_id s' = submission_id s"
      by auto
    with that assms have "s' = s" by (meson distinct_map inj_onD)
    with s' show "Q s" by simp
  next
    assume "Q s"
    with that show "submission_id s \<in> set (map submission_id (filter Q (Submission_objects w)))"
      by auto
  qed
  then show ?thesis
    unfolding selected_def by (intro filter_cong) simp_all
qed

lemma get_queryset_filter:
  "get_queryset request w =
    filter (\<lambda>s. has_perm request ''judge.edit_all_problem'' \<or>
                 request_profile request \<in> set (problem_authors (submission_problem s)))
           (Submission_objects w)"
  by (simp add: get_queryset_def)

subsection \<open>Evaluation on the example data\<close>

lemma mk_submission_fields:
  "submission_id (mk_submission sid user p result pts) = sid"
  "submission_user (mk_submission sid user p result pts) = user"
  "submission_problem (mk_submission sid user p result pts) = p"
  "submission_points (mk_submission sid user p result pts) = pts"
  "submission_id (case_submission sid cp ct) = sid"
  "submission_user (case_submission sid cp ct) = 1"
  by (simp_all add: mk_submission_def case_submission_def)

lemma rescored_values:
  "rescored_points py (mk_submission sid user problem_100 result pts) = 0"
  "rescored_points py (mk_submission sid user problem_101 result pts) = 80"
  "rescored_points py (case_submission sid 3 20) = 3602879701896397 / 36028797018963968"
  "rescored_points py (case_submission sid 7 20) = 5404319552844595 / 18014398509481984"
  "rescored_points Python2 (case_submission sid 1 4) = 5404319552844595 / 18014398509481984"
  "rescored_points Python3 (case_submission sid 1 4) = 3602879701896397 / 18014398509481984"
  "rescored_points py (case_submission sid 0 0) = 0"
  by (simp_all add: rescored_points_def mk_submission_def case_submission_def problem_1_def
      problem_100_def problem_101_def problem_one_def Let_def
      float_div_80_100 float_mul_08_100 float_div_3_20 float_mul_015_1 float_div_7_20
      float_mul_035_1 float_div_1_4 float_mul_025_1 py_round1_values)

lemma example_requests:
  "has_perm editor ''judge.rejudge_submission''"
  "has_perm editor ''judge.edit_own_problem''"
  "\<not> has_perm editor ''judge.edit_all_problem''"
  "\<not> has_perm editor ''judge.rejudge_submission_lot''"
  "has_perm rejudger ''judge.rejudge_submission''"
  "\<not> has_perm rejudger ''judge.edit_own_problem''"
  "\<not> has_perm author ''judge.rejudge_submission''"
  "has_perm author ''judge.edit_own_problem''"
  "request_profile editor = 7"
  by (simp_all add: has_perm_def editor_def rejudger_def author_def)

lemma example_worlds:
  "distinct (map submission_id (Submission_objects rescore_world))"
  "distinct (map submission_id (Submission_objects rounding_world))"
  "distinct (map submission_id (Submission_objects bulk_world))"
  "touched_profiles rescore_world [1, 2] = [1]"
  "messages rescore_world = []" "messages bulk_world = []"
  by (simp_all add: rescore_world_def rounding_world_def bulk_world_def empty_world_def
      touched_profiles_def selected_def mk_submission_fields)

text \<open>
  C8. For a caller who passes the gate of \<open>recalculate_score\<close>, every selected
  submission is stored with the recomputed points and no other row changes. The recomputed
  points are \<open>round(case_points / case_total * problem.points, 1)\<close> in the interpreter's
  double arithmetic when \<open>case_total > 0\<close> and 0 when \<open>case_total = 0\<close>, forced to 0
  when the problem has no partial credit and the computed points are below the points of
  the problem; \<open>round(x, 1)\<close> is the double of a decimal with one digit after the point
  within half a tenth of \<open>x\<close>. Submission ids are the primary key of the table.
\<close>

theorem recalculate_score_points:
  assumes "has_perm request ''judge.rejudge_submission''"
    and "distinct (map submission_id (Submission_objects w))"
  shows "Submission_objects (recalculate_score py request queryset w) =
       map (\<lambda>row. if submission_id row \<in> set queryset
                   then row\<lparr>submission_points := rescored_points py row\<rparr> else row)
           (Submission_objects w) \<and>
     (\<forall>s. (0 < submission_case_total s \<longrightarrow>
             rescored_points py s =
               (let points = py_round1 py (float_mul (float_div (submission_case_points s)
                                                                 (submission_case_total s))
                                                      (problem_points (submission_problem s)))
                in if \<not> problem_partial (submission_problem s) \<and>
                      points < problem_points (submission_problem s)
                   then 0 else points)) \<and>
          (submission_case_total s = 0 \<longrightarrow> rescored_points py s = 0)) \<and>
     (\<forall>x. \<exists>k::int. py_round1 py x = double_of (of_int k / 10) \<and> \<bar>of_int k / 10 - x\<bar> \<le> 1 / 20)"
  using recalculate_score_store [OF assms] rescored_points_cases py_round1_decimal by blast

theorem recalculate_score_points_witness:
  "map submission_points (Submission_objects (recalculate_score Python2 editor [1, 2, 3, 4] rounding_world)) =
     [3602879701896397 / 36028797018963968, 5404319552844595 / 18014398509481984,
      5404319552844595 / 18014398509481984, 0] \<and>
   map submission_points (Submission_objects (recalculate_score Python3 editor [1, 2, 3, 4] rounding_world)) =
     [3602879701896397 / 36028797018963968, 5404319552844595 / 18014398509481984,
      3602879701896397 / 18014398509481984, 0] \<and>
   map submission_points (Submission_objects (recalculate_score Python2 editor [1, 2] rescore_world)) =
     [0, 80] \<and>
   map submission_points (Submission_objects (recalculate_score Python2 editor [2] rescore_world)) =
     [50, 80]"
proof -
  note a = recalculate_score_points [OF example_requests(1) example_worlds(2), of Python2 "[1, 2, 3, 4]"]
  note b = recalculate_score_points [OF example_requests(1) example_worlds(2), of Python3 "[1, 2, 3, 4]"]
  note c = recalculate_score_points [OF example_requests(1) example_worlds(1), of Python2 "[1, 2]"]
  note d = recalculate_score_points [OF example_requests(1) example_worlds(1), of Python2 "[2]"]
  show ?thesis
    unfolding conjunct1 [OF a] conjunct1 [OF b] conjunct1 [OF c] conjunct1 [OF d]
    by (simp add: rounding_world_def rescore_world_def empty_world_def mk_submission_fields
        rescored_values)
qed

text \<open>
  C1. Both operations are reached through the change list of the admin site only. A
  caller without the rejudge capability or without the edit-own-problem capability gets
  an error from either of them, \<open>PermissionDenied\<close> from the change list or the error
  message of the action, and the world is otherwise unchanged: no submission is judged or
  rescored and no cache entry is touched. The same holds for a caller with both
  capabilities and without the bulk-rejudge capability who selects more than 10
  submissions for \<open>judge\<close>. Submission ids are the primary key of the table.
\<close>

theorem admin_action_gate:
  "(\<not> (has_perm request ''judge.rejudge_submission'' \<and> has_perm request ''judge.edit_own_problem'') \<longrightarrow>
      changelist_action py bridge request action selected_pks w = Inl PermissionDenied \<or>
      changelist_action py bridge request action selected_pks w =
        Inr (w\<lparr>messages := messages w @
                 [Error_message ''You do not have the permission to rejudge submissions.'']\<rparr>)) \<and>
   (has_perm request ''judge.rejudge_submission'' \<and> has_perm request ''judge.edit_own_problem'' \<and>
    \<not> has_perm request ''judge.rejudge_submission_lot'' \<and>
    distinct (map submission_id (Submission_objects w)) \<and>
    10 < length (filter (\<lambda>s. submission_id s \<in> set selected_pks) (get_queryset request w)) \<longrightarrow>
      changelist_action py bridge request Judge selected_pks w =
        Inr (w\<lparr>messages := messages w @
                 [Error_message ''You do not have the permission to rejudge THAT many submissions.'']\<rparr>))"
proof (intro conjI impI)
  assume gate: "\<not> (has_perm request ''judge.rejudge_submission'' \<and> has_perm request ''judge.edit_own_problem'')"
  show "changelist_action py bridge request action selected_pks w = Inl PermissionDenied \<or>
      changelist_action py bridge request action selected_pks w =
        Inr (w\<lparr>messages := messages w @
                 [Error_message ''You do not have the permission to rejudge submissions.'']\<rparr>)"
  proof (cases "has_perm request ''judge.edit_own_problem''")
    case False
    then show ?thesis by (simp add: changelist_action_def has_change_permission_def)
  next
    case True
    with gate have no: "\<not> has_perm request ''judge.rejudge_submission''" by simp
    from True have "has_change_permission request None" by (simp add: has_change_permission_def)
    then have "changelist_action py bridge request action selected_pks w =
        Inr (w\<lparr>messages := messages w @
                 [Error_message ''You do not have the permission to rejudge submissions.'']\<rparr>)"
      using no judge_gate [of request] recalculate_score_gate [OF no]
      by (cases action) (simp_all add: changelist_action_def Let_def)
    then show ?thesis by simp
  qed
next
  assume h: "has_perm request ''judge.rejudge_submission'' \<and> has_perm request ''judge.edit_own_problem'' \<and>
    \<not> has_perm request ''judge.rejudge_submission_lot'' \<and>
    distinct (map submission_id (Submission_objects w)) \<and>
    10 < length (filter (\<lambda>s. submission_id s \<in> set selected_pks) (get_queryset request w))"
  let ?Q = "\<lambda>s. (has_perm request ''judge.edit_all_problem'' \<or>
                 request_profile request \<in> set (problem_authors (submission_problem s))) \<and>
                submission_id s \<in> set selected_pks"
  have rows: "filter (\<lambda>s. submission_id s \<in> set selected_pks) (get_queryset request w) =
      filter ?Q (Submission_objects w)"
    by (simp add: get_queryset_filter conj_commute)
  from h have "selected w (map submission_id (filter ?Q (Submission_objects w))) =
      filter ?Q (Submission_objects w)"
    by (intro selected_of_rows) simp
  with h rows have many: "10 < length (selected w (map submission_id
      (filter (\<lambda>s. submission_id s \<in> set selected_pks) (get_queryset request w))))"
    by simp
  from h have "has_change_permission request None" by (simp add: has_change_permission_def)
  with h show "changelist_action py bridge request Judge selected_pks w =
        Inr (w\<lparr>messages := messages w @
                 [Error_message ''You do not have the permission to rejudge THAT many submissions.'']\<rparr>)"
    using judge_lot_gate [OF _ _ many, of request bridge]
    by (simp add: changelist_action_def Let_def)
qed

theorem admin_action_gate_witness:
  "changelist_action Python2 (\<lambda>s. True) rejudger Recalculate_score [1, 2] rescore_world =
     Inl PermissionDenied \<and>
   changelist_action Python2 (\<lambda>s. True) rejudger Judge [1, 2] rescore_world = Inl PermissionDenied \<and>
   changelist_action Python2 (\<lambda>s. True) author Recalculate_score [1, 2] rescore_world =
     Inr (rescore_world\<lparr>messages :=
            [Error_message ''You do not have the permission to rejudge submissions.'']\<rparr>) \<and>
   changelist_action Python2 (\<lambda>s. True) author Judge [1, 2] rescore_world =
     Inr (rescore_world\<lparr>messages :=
            [Error_message ''You do not have the permission to rejudge submissions.'']\<rparr>) \<and>
   changelist_action Python2 (\<lambda>s. True) editor Judge [1, 2, 3, 4, 5, 6, 7, 8, 9, 10, 11] bulk_world =
     Inr (bulk_world\<lparr>messages :=
            [Error_message ''You do not have the permission to rejudge THAT many submissions.'']\<rparr>)"
proof -
  have denied: "\<not> has_change_permission rejudger None"
    by (simp add: has_change_permission_def example_requests)
  have many: "10 < length (filter (\<lambda>s. submission_id s \<in> set [1, 2, 3, 4, 5, 6, 7, 8, 9, 10, 11])
      (get_queryset editor bulk_world))"
    by (simp add: get_queryset_def example_requests bulk_world_def empty_world_def
        mk_submission_fields problem_100_def problem_1_def)
  from admin_action_gate [of rejudger Python2 "\<lambda>s. True" Recalculate_score "[1, 2]" rescore_world]
    admin_action_gate [of rejudger Python2 "\<lambda>s. True" Judge "[1, 2]" rescore_world]
    admin_action_gate [of author Python2 "\<lambda>s. True" Recalculate_score "[1, 2]" rescore_world]
    admin_action_gate [of author Python2 "\<lambda>s. True" Judge "[1, 2]" rescore_world]
    admin_action_gate [of editor Python2 "\<lambda>s. True" Judge "[1, 2, 3, 4, 5, 6, 7, 8, 9, 10, 11]" bulk_world]
  show ?thesis
    using denied many
    by (simp add: example_requests example_worlds changelist_action_def has_change_permission_def)
qed

text \<open>
  C6. After a rescore the completion entry of the owner is deleted and the attempt
  entry is not: user 1 keeps the cached attempt set with 50 achieved points for both
  problems while the stored points are now 0 and 80.
\<close>

theorem recalculate_score_keeps_user_attempted:
  "map submission_points (Submission_objects (recalculate_score py editor [1, 2] rescore_world)) = [0, 80] \<and>
   user_complete (recalculate_score py editor [1, 2] rescore_world) 1 = None \<and>
   user_attempted (recalculate_score py editor [1, 2] rescore_world) 1 =
     Some ([100 \<mapsto> \<lparr>achieved_points = 50, max_points = 100\<rparr>,
            101 \<mapsto> \<lparr>achieved_points = 50, max_points = 100\<rparr>], 86400)"
proof -
  note e = recalculate_score_eq [OF example_requests(1) example_worlds(1), of py "[1, 2]"]
  show ?thesis
    unfolding e example_worlds(4)
    by (simp add: rescore_world_def empty_world_def mk_submission_fields rescored_values)
qed

end
